theory Spec2Isabelle
  imports Main "HOL-Library.Sublist" "HOL-Library.Char_ord" "HOL-Library.List_Lexorder"
begin

section \<open>Python strings\<close>

text \<open>
  A Python \<open>str\<close> is modelled as a \<^typ>\<open>string\<close>, one \<^typ>\<open>char\<close> per code point, for
  the code points 0 to 255. The three string operations the agent uses are given on that
  range as CPython defines them: \<open>str.isspace\<close> (which is also the class \<open>\s\<close> of \<open>re\<close> on
  a \<open>str\<close> pattern), \<open>str.lower\<close> and \<open>str.strip\<close>.
\<close>

abbreviation NL :: char where
  "NL \<equiv> CHR 0x0A"

definition isspace :: "char \<Rightarrow> bool" where
  "isspace c \<longleftrightarrow> c \<in> {CHR 0x09, CHR 0x0A, CHR 0x0B, CHR 0x0C, CHR 0x0D,
                        CHR 0x1C, CHR 0x1D, CHR 0x1E, CHR 0x1F, CHR 0x20, CHR 0x85, CHR 0xA0}"

definition lower_char :: "char \<Rightarrow> char" where
  "lower_char c =
     (let n = of_char c :: nat in
      if (65 \<le> n \<and> n \<le> 90) \<or> (192 \<le> n \<and> n \<le> 222 \<and> n \<noteq> 215)
      then char_of (n + 32) else c)"

definition lower :: "string \<Rightarrow> string" where
  "lower s = map lower_char s"

definition strip :: "string \<Rightarrow> string" where
  "strip s = rev (dropWhile isspace (rev (dropWhile isspace s)))"

text \<open>\<open>needle in haystack\<close> on two \<open>str\<close> values.\<close>

fun py_in :: "string \<Rightarrow> string \<Rightarrow> bool" where
  "py_in w [] = (w = [])"
| "py_in w (c # cs) = (prefix w (c # cs) \<or> py_in w cs)"

section \<open>Cleaning a completion: \<open>MusicAgent._clean_thinking_tags\<close>\<close>

text \<open>
  \<open>re.sub(r'<think>.*?</think>', '', response, flags=re.DOTALL)\<close>: scanning from the left,
  at the first position where \<open><think>\<close> starts and a \<open></think>\<close> follows, the lazy
  \<open>.*?\<close> (which crosses newlines under \<open>DOTALL\<close>) stops at the first \<open></think>\<close>; the
  region is replaced by the empty string and the scan goes on behind it.
  \<open>find_close s\<close> is what follows the first \<open></think>\<close> of \<open>s\<close>.
\<close>

fun find_close :: "string \<Rightarrow> string option" where
  "find_close [] = None"
| "find_close (c # cs) =
     (if prefix ''</think>'' (c # cs) then Some (drop 8 (c # cs)) else find_close cs)"

lemma find_close_length: "find_close s = Some r \<Longrightarrow> length r < length s"
  by (induction s) (auto split: if_splits)

function sub_think :: "string \<Rightarrow> string" where
  "sub_think [] = []"
| "sub_think (c # cs) =
     (if prefix ''<think>'' (c # cs) then
        (case find_close (drop 7 (c # cs)) of
           Some r \<Rightarrow> sub_think r
         | None \<Rightarrow> c # sub_think cs)
      else c # sub_think cs)"
  by pat_completeness auto
termination
proof (relation "measure length")
  fix c cs r
  assume "find_close (drop 7 (c # cs)) = Some r"
  then have "length r < length (drop 7 (c # cs))"
    by (rule find_close_length)
  then show "(r, c # cs) \<in> measure length"
    by simp
qed simp_all

text \<open>
  \<open>re.sub(r'\n\s*\n', '\n\n', cleaned)\<close>: at a newline, the greedy \<open>\s*\<close> takes the whole
  run of whitespace that follows and gives back until a newline ends the match, so the
  match ends at the last newline of that run. \<open>last_nl s\<close> is what follows the last
  newline inside the leading whitespace run of \<open>s\<close>, if that run has a newline.
\<close>

fun last_nl :: "string \<Rightarrow> string option" where
  "last_nl [] = None"
| "last_nl (c # cs) =
     (if isspace c then
        (case last_nl cs of
           Some r \<Rightarrow> Some r
         | None \<Rightarrow> if c = NL then Some cs else None)
      else None)"

lemma last_nl_length: "last_nl s = Some r \<Longrightarrow> length r < length s"
  by (induction s arbitrary: r) (auto split: if_splits option.splits)

function sub_blank :: "string \<Rightarrow> string" where
  "sub_blank [] = []"
| "sub_blank (c # cs) =
     (if c = NL then
        (case last_nl cs of
           Some r \<Rightarrow> NL # NL # sub_blank r
         | None \<Rightarrow> c # sub_blank cs)
      else c # sub_blank cs)"
  by pat_completeness auto
termination
proof (relation "measure length")
  fix c cs r
  assume "last_nl cs = Some r"
  then have "length r < length cs"
    by (rule last_nl_length)
  then show "(r, c # cs) \<in> measure length"
    by simp
qed simp_all

definition clean_thinking_tags :: "string \<Rightarrow> string" where
  "clean_thinking_tags response = strip (sub_blank (sub_think response))"

section \<open>Extracting a song name: the two patterns of \<open>MusicAgent.chat\<close>\<close>

text \<open>
  \<open>re.findall(r'["\']([^"\']+)["\']', user_input)\<close>: at a quote character, the greedy class
  \<open>[^"']+\<close> takes the whole run of characters up to the next quote character, which
  must be non-empty and must be followed by a quote character (giving back characters
  never helps: what follows a shorter run is not a quote). The group is that run and the
  scan goes on behind the closing quote; otherwise the scan moves one character on.
\<close>

definition is_quote :: "char \<Rightarrow> bool" where
  "is_quote c \<longleftrightarrow> c = CHR 0x22 \<or> c = CHR 0x27"

function findall_quoted :: "string \<Rightarrow> string list" where
  "findall_quoted [] = []"
| "findall_quoted (c # cs) =
     (if is_quote c \<and> takeWhile (\<lambda>x. \<not> is_quote x) cs \<noteq> []
         \<and> dropWhile (\<lambda>x. \<not> is_quote x) cs \<noteq> []
      then takeWhile (\<lambda>x. \<not> is_quote x) cs
             # findall_quoted (tl (dropWhile (\<lambda>x. \<not> is_quote x) cs))
      else findall_quoted cs)"
  by pat_completeness auto
termination
proof (relation "measure length")
  fix c :: char and cs :: string
  have "length (dropWhile (\<lambda>x. \<not> is_quote x) cs) \<le> length cs"
    by (rule length_dropWhile_le)
  then show "(tl (dropWhile (\<lambda>x. \<not> is_quote x) cs), c # cs) \<in> measure length"
    by simp
qed simp_all

text \<open>
  \<open>re.search(r'similar to (.+?)(?:\?|$|\.)', user_lower)\<close>, without flags: behind the
  literal, the lazy group takes one character, which \<open>.\<close> does not let be a newline, and
  then one more at a time until what follows is a question mark, the end of the string
  (\<open>$\<close> also matches before a newline that ends the string) or a period.
  \<open>until_end s\<close> is the rest of the group when it already holds one character and \<open>s\<close>
  follows; \<open>search_similar_to\<close> tries the start positions from the left.
\<close>

fun until_end :: "string \<Rightarrow> string option" where
  "until_end [] = Some []"
| "until_end (c # cs) =
     (if c = CHR ''?'' \<or> c = CHR ''.'' then Some []
      else if c = NL then (if cs = [] then Some [] else None)
      else map_option ((#) c) (until_end cs))"

definition similar_to_group :: "string \<Rightarrow> string option" where
  "similar_to_group s =
     (case s of
        [] \<Rightarrow> None
      | c # cs \<Rightarrow> if c = NL then None else map_option ((#) c) (until_end cs))"

fun search_similar_to :: "string \<Rightarrow> string option" where
  "search_similar_to [] = None"
| "search_similar_to (c # cs) =
     (case (if prefix ''similar to '' (c # cs)
            then similar_to_group (drop 11 (c # cs)) else None) of
        Some g \<Rightarrow> Some g
      | None \<Rightarrow> search_similar_to cs)"

section \<open>The collaborators of the agent\<close>

text \<open>
  A Python exception is kept as its \<open>str(e)\<close>, the one thing the handlers of the agent
  read. A data frame of the similarity backend is the list of its rows, in order, with
  the four columns of a recommendation record. The world holds what the process reads
  and calls: the environment variables, the \<open>ChatGroq\<close> constructor, the similarity
  backend \<open>recommend_songs\<close>, the prompt template
  (\<open>ChatPromptTemplate.from_messages(...).format_messages(...)\<close>, from the template
  messages and the keyword arguments; it raises on a template it cannot fill in) and the completion call \<open>llm.invoke\<close>, which gives
  \<open>response.content\<close>. Each of the calls may raise.
\<close>

datatype exn = Exception (str: string)

record row =
  artist :: string
  song :: string
  link :: "string option"
  text_col :: "string option"

type_synonym dataframe = "row list"

type_synonym message = "string \<times> string"

record llm_client =
  model :: string
  groq_api_key :: string
  temperature :: int

record world =
  getenv :: "string \<Rightarrow> string option"
  ChatGroq :: "string \<Rightarrow> string \<Rightarrow> int \<Rightarrow> exn + llm_client"
  recommend_songs :: "string \<Rightarrow> int \<Rightarrow> exn + dataframe option"
  format_messages :: "message list \<Rightarrow> (string \<times> string) list \<Rightarrow> exn + message list"
  invoke :: "llm_client \<Rightarrow> message list \<Rightarrow> exn + string"

text \<open>
  A computation of the agent gives its result, or the exception it raises, and the calls
  it made to the backend and to the LLM, in order.
\<close>

datatype event = Recommend_songs string int | Llm_invoke "message list"

type_synonym 'a comp = "(exn + 'a) \<times> event list"

definition return :: "'a \<Rightarrow> 'a comp" where
  "return x = (Inr x, [])"

definition lift :: "exn + 'a \<Rightarrow> 'a comp" where
  "lift r = (r, [])"

definition and_then :: "'a comp \<Rightarrow> ('a \<Rightarrow> 'b comp) \<Rightarrow> 'b comp" where
  "and_then m f =
     (case m of
        (Inl e, t) \<Rightarrow> (Inl e, t)
      | (Inr x, t) \<Rightarrow> (case f x of (r, t') \<Rightarrow> (r, t @ t')))"

definition try_except :: "'a comp \<Rightarrow> (exn \<Rightarrow> 'a comp) \<Rightarrow> 'a comp" where
  "try_except m handler =
     (case m of
        (Inl e, t) \<Rightarrow> (case handler e of (r, t') \<Rightarrow> (r, t @ t'))
      | (Inr x, t) \<Rightarrow> (Inr x, t))"

definition call_recommend_songs :: "world \<Rightarrow> string \<Rightarrow> int \<Rightarrow> dataframe option comp" where
  "call_recommend_songs w song_name n =
     (recommend_songs w song_name n, [Recommend_songs song_name n])"

definition call_invoke :: "world \<Rightarrow> llm_client \<Rightarrow> message list \<Rightarrow> string comp" where
  "call_invoke w h msgs = (invoke w h msgs, [Llm_invoke msgs])"

section \<open>The agent: \<open>MusicAgent\<close>\<close>

record agent =
  provider :: string
  model_name :: string
  api_key :: "string option"
  llm :: "llm_client option"

text \<open>\<open>a or b\<close> on optional strings: \<open>None\<close> and the empty string are false.\<close>

definition truthy :: "string option \<Rightarrow> bool" where
  "truthy a \<longleftrightarrow> a \<noteq> None \<and> a \<noteq> Some []"

definition py_or :: "string option \<Rightarrow> string option \<Rightarrow> string option" where
  "py_or a b = (if truthy a then a else b)"

definition or_str :: "string option \<Rightarrow> string \<Rightarrow> string" where
  "or_str a d = (case a of Some (c # cs) \<Rightarrow> c # cs | _ \<Rightarrow> d)"

definition setup_agent :: "world \<Rightarrow> agent \<Rightarrow> string \<Rightarrow> agent" where
  "setup_agent w self key =
     (case ChatGroq w (model_name self) key 0 of
        Inr h \<Rightarrow> self\<lparr>llm := Some h\<rparr>
      | Inl e \<Rightarrow> self)"

definition init :: "world \<Rightarrow> string option \<Rightarrow> string option \<Rightarrow> string option \<Rightarrow> agent" where
  "init w api_key_arg provider_arg model_name_arg =
     (let self = \<lparr>provider = or_str provider_arg ''Groq (Free)'',
                  model_name = or_str (py_or model_name_arg (getenv w ''MODEL_NAME''))
                                 ''qwen/qwen3-32b'',
                  api_key = py_or api_key_arg (getenv w ''GROQ_API_KEY''),
                  llm = None\<rparr>
      in case api_key self of
           Some (c # cs) \<Rightarrow> setup_agent w self (c # cs)
         | _ \<Rightarrow> self)"

definition not_found_text :: string where
  "not_found_text = ''Song not found in the database. Please try another song.''"

definition get_recommendations :: "world \<Rightarrow> string \<Rightarrow> string comp" where
  "get_recommendations w song_name =
     try_except
       (and_then (call_recommend_songs w song_name 5) (\<lambda>df.
          case df of
            None \<Rightarrow> return not_found_text
          | Some rows \<Rightarrow>
              if rows = [] then return not_found_text
              else return
                (foldl (\<lambda>result_str r. result_str @ ''- '' @ song r @ '' by '' @ artist r @ [NL])
                   (''Here are the recommended songs:'' @ [NL]) rows)))
       (\<lambda>e. return (''Error occurred while fetching recommendations: '' @ str e))"

text \<open>
  \<open>self.llm.invoke(prompt.format_messages(...))\<close>: the template is filled in, which makes
  no call, and the messages go to the model.
\<close>

definition prompt_llm ::
    "world \<Rightarrow> llm_client \<Rightarrow> message list \<Rightarrow> (string \<times> string) list \<Rightarrow> string comp" where
  "prompt_llm w h templates kwargs =
     and_then (lift (format_messages w templates kwargs)) (\<lambda>msgs. call_invoke w h msgs)"

definition format_prompt :: "string \<Rightarrow> string \<Rightarrow> message list" where
  "format_prompt user_input recommendations =
     [(''system'', ''You are a helpful music assistant. Format the following recommendations in a friendly way.''),
      (''user'', ''The user asked: '' @ user_input @ [NL, NL] @ ''Recommendations:''
                   @ [NL] @ recommendations)]"

definition format_with_llm :: "world \<Rightarrow> agent \<Rightarrow> string \<Rightarrow> string \<Rightarrow> string comp" where
  "format_with_llm w self user_input recommendations =
     (case llm self of
        None \<Rightarrow> return recommendations
      | Some h \<Rightarrow>
          try_except
            (and_then (prompt_llm w h (format_prompt user_input recommendations) [])
               (\<lambda>content. return (clean_thinking_tags content)))
            (\<lambda>e. return (''Could not format recommendations using LLM: '' @ str e)))"

definition general_prompt :: "message list" where
  "general_prompt =
     [(''system'', ''You are a helpful music assistant. You can recommend songs based on lyrics similarity. Ask the user for a song name if they want recommendations.''),
      (''user'', ''{input}'')]"

definition general_conversation :: "world \<Rightarrow> llm_client \<Rightarrow> string \<Rightarrow> string comp" where
  "general_conversation w h user_input =
     and_then (prompt_llm w h general_prompt [(''input'', user_input)])
       (\<lambda>content. return (clean_thinking_tags content))"

definition no_llm_text :: string where
  "no_llm_text = ''I'm sorry, I cannot process your request because the Groq API key is missing or invalid.''"

definition chat :: "world \<Rightarrow> agent \<Rightarrow> string \<Rightarrow> string comp" where
  "chat w self user_input =
     (case llm self of
        None \<Rightarrow> return no_llm_text
      | Some h \<Rightarrow>
          try_except
            (let user_lower = lower user_input in
             if list_ex (\<lambda>word. py_in word user_lower)
                  [''recommend'', ''suggestion'', ''similar'', ''like'']
             then
               (case findall_quoted user_input of
                  song_name # _ \<Rightarrow>
                    and_then (get_recommendations w song_name)
                      (format_with_llm w self user_input)
                | [] \<Rightarrow>
                    (case search_similar_to user_lower of
                       Some g \<Rightarrow>
                         and_then (get_recommendations w (strip g))
                           (format_with_llm w self user_input)
                     | None \<Rightarrow> general_conversation w h user_input))
             else general_conversation w h user_input)
            (\<lambda>e. return (''I encountered an error while processing your request: '' @ str e)))"

text \<open>The song name that \<open>chat\<close> hands to the backend for a message, if it does.\<close>

definition extracted_song :: "string \<Rightarrow> string option" where
  "extracted_song user_input =
     (let user_lower = lower user_input in
      if list_ex (\<lambda>word. py_in word user_lower)
           [''recommend'', ''suggestion'', ''similar'', ''like'']
      then
        (case findall_quoted user_input of
           song_name # _ \<Rightarrow> Some song_name
         | [] \<Rightarrow> map_option strip (search_similar_to user_lower))
      else None)"

section \<open>The API layer: \<open>/recommend\<close> and \<open>/songs\<close>\<close>

text \<open>
  An endpoint gives its response body, or the \<open>HTTPException\<close> it raises, which FastAPI
  turns into a response with that status code. The backend is pandas code and raises no
  \<open>HTTPException\<close> of its own, so inside \<open>get_recommendations\<close> the only one is the 404
  of the endpoint, which \<open>except HTTPException: raise\<close> lets through; every other
  exception becomes a 500 with \<open>str(e)\<close> as its detail.
  \<open>result_df.to_dict(orient="records")\<close> is the list of the rows, in order.
\<close>

datatype http_exception = HTTPException (status_code: nat) (detail: string)

datatype raised = Http http_exception | Other exn

record recommendation_request =
  song_name :: string
  top_n :: int

definition to_dict_records :: "dataframe \<Rightarrow> row list" where
  "to_dict_records result_df = result_df"

definition api_get_recommendations ::
    "world \<Rightarrow> recommendation_request \<Rightarrow> http_exception + row list" where
  "api_get_recommendations w request =
     (case (case recommend_songs w (song_name request) (top_n request) of
              Inl e \<Rightarrow> Inl (Other e)
            | Inr None \<Rightarrow> Inl (Http (HTTPException 404 ''Song not found''))
            | Inr (Some result_df) \<Rightarrow> Inr (to_dict_records result_df)) of
        Inl (Http h) \<Rightarrow> Inl h
      | Inl (Other e) \<Rightarrow> Inl (HTTPException 500 (str e))
      | Inr recommendations \<Rightarrow> Inr recommendations)"

text \<open>
  Modelled from the spec: \<open>recommend_songs\<close> of \<open>app/core/recommender.py\<close>, which is not
  among the sources. The spec gives it as a black box: from a song identifier and a
  result count, an ordered list of records, or "not found" when the song is unknown, and
  for a known song exactly the requested number of records, or fewer when the backend
  has fewer matches. \<open>matches\<close> is the ranked list of the similar songs of each known
  song.
\<close>

definition recommend_songs_spec ::
    "(string \<Rightarrow> row list option) \<Rightarrow> string \<Rightarrow> int \<Rightarrow> exn + dataframe option" where
  "recommend_songs_spec matches name n =
     (case matches name of
        None \<Rightarrow> Inr None
      | Some ranked \<Rightarrow> Inr (Some (take (nat n) ranked)))"

text \<open>
  \<open>/songs\<close> reads the \<open>song\<close> column of the catalogue \<open>df\<close>, in which a missing title is
  \<open>None\<close>. \<open>Series.unique\<close> keeps the first occurrence of each value, in order of
  appearance, and \<open>sorted\<close> orders \<open>str\<close> values by code points.
\<close>

definition dropna :: "'a option list \<Rightarrow> 'a list" where
  "dropna col = List.map_filter id col"

definition unique :: "'a list \<Rightarrow> 'a list" where
  "unique xs = rev (remdups (rev xs))"

record songs_list_response =
  songs :: "string list"
  count :: nat

definition api_get_all_songs :: "string option list \<Rightarrow> http_exception + songs_list_response" where
  "api_get_all_songs song_col =
     (let songs = sort (unique (dropna song_col))
      in Inr \<lparr>songs = songs, count = length songs\<rparr>)"

section \<open>The client wrapper: \<open>APIClient.chat_with_assistant\<close>\<close>

text \<open>
  \<open>requests.post\<close> gives a response or raises; \<open>response.json()\<close> gives the parsed body
  or raises. A parsed JSON object is the list of its members, read with \<open>map_of\<close>.
  What \<open>str(e)\<close> is for the \<open>HTTPError\<close> of \<open>raise_for_status\<close> is left to the response.
\<close>

datatype json =
    JNull
  | JBool bool
  | JInt int
  | JFloat string
  | JStr string
  | JArr "json list"
  | JObj "(string \<times> json) list"

datatype requests_exception =
    ConnectionError string
  | Timeout string
  | OtherException string

record response =
  resp_status :: nat
  resp_json :: "string + json"
  resp_http_error :: string

datatype api_error = APIError string

definition type_name :: "json \<Rightarrow> string" where
  "type_name j =
     (case j of
        JNull \<Rightarrow> ''NoneType'' | JBool b \<Rightarrow> ''bool'' | JInt i \<Rightarrow> ''int'' | JFloat f \<Rightarrow> ''float''
      | JStr s \<Rightarrow> ''str'' | JArr xs \<Rightarrow> ''list'' | JObj kvs \<Rightarrow> ''dict'')"

definition client_chat_with_assistant ::
    "(string \<Rightarrow> json \<Rightarrow> nat \<Rightarrow> requests_exception + response) \<Rightarrow> string \<Rightarrow> string
      \<Rightarrow> api_error + json" where
  "client_chat_with_assistant post base_url message =
     (case post (base_url @ ''/chat'') (JObj [(''message'', JStr message)]) 30 of
        Inl (ConnectionError m) \<Rightarrow>
          Inl (APIError ''Cannot connect to API server. Please start FastAPI first.'')
      | Inl (Timeout m) \<Rightarrow> Inl (APIError ''Chat request timed out. Please try again.'')
      | Inl (OtherException m) \<Rightarrow> Inl (APIError (''Chat error: '' @ m))
      | Inr response \<Rightarrow>
          if 400 \<le> resp_status response \<and> resp_status response < 600
          then Inl (APIError (''Chat error: '' @ resp_http_error response))
          else
            (case resp_json response of
               Inl m \<Rightarrow> Inl (APIError (''Chat error: '' @ m))
             | Inr (JObj result) \<Rightarrow>
                 (case map_of result ''response'' of
                    Some v \<Rightarrow> Inr v
                  | None \<Rightarrow> Inr (JStr ''No response received''))
             | Inr j \<Rightarrow>
                 Inl (APIError (''Chat error: '' @ [CHR 0x27] @ type_name j @ [CHR 0x27]
                        @ '' object has no attribute '' @ [CHR 0x27] @ ''get'' @ [CHR 0x27]))))"

section \<open>A concrete world\<close>

text \<open>
  A world in which one song is known, one lookup fails, the prompt template gives its
  messages back and the model wraps its answer in thinking tags; the same world with a
  model that raises; an agent built with a key; a ranking for the backend of the spec; and a \<open>/chat\<close> server whose body
  has no \<open>response\<close> member.
\<close>

definition demo_world :: world where
  "demo_world =
     \<lparr>getenv = (\<lambda>name. None),
      ChatGroq = (\<lambda>m k t. Inr \<lparr>model = m, groq_api_key = k, temperature = t\<rparr>),
      recommend_songs = (\<lambda>name n.
         if name = ''Yesterday'' then
           Inr (Some [\<lparr>artist = ''Queen'', song = ''Bohemian Rhapsody'', link = None, text_col = None\<rparr>,
                      \<lparr>artist = ''ABBA'', song = ''Waterloo'', link = None, text_col = None\<rparr>])
         else if name = ''Help'' then Inl (Exception ''matrix not loaded'')
         else Inr None),
      format_messages = (\<lambda>msgs kwargs. Inr msgs),
      invoke = (\<lambda>h msgs. Inr ''<think>friendly</think>Enjoy the music!'')\<rparr>"

definition failing_world :: world where
  "failing_world = demo_world\<lparr>invoke := (\<lambda>h msgs. Inl (Exception ''rate limit''))\<rparr>"

definition demo_agent :: agent where
  "demo_agent = init demo_world (Some ''gsk-key'') None None"

definition demo_matches :: "string \<Rightarrow> row list option" where
  "demo_matches name =
     (if name = ''Yesterday'' then
        Some [\<lparr>artist = ''Queen'', song = ''Bohemian Rhapsody'', link = None, text_col = None\<rparr>,
              \<lparr>artist = ''ABBA'', song = ''Waterloo'', link = None, text_col = None\<rparr>,
              \<lparr>artist = ''Adele'', song = ''Hello'', link = None, text_col = None\<rparr>]
      else None)"

definition spec_world :: world where
  "spec_world = demo_world\<lparr>recommend_songs := recommend_songs_spec demo_matches\<rparr>"

definition demo_post :: "string \<Rightarrow> json \<Rightarrow> nat \<Rightarrow> requests_exception + response" where
  "demo_post url payload timeout =
     Inr \<lparr>resp_status = 200, resp_json = Inr (JObj [(''reply'', JStr ''hi'')]),
          resp_http_error = []\<rparr>"

section \<open>Lemmas on the patterns\<close>

lemma prefix_nth: "prefix p xs \<Longrightarrow> k < length p \<Longrightarrow> xs ! k = p ! k"
  by (auto simp: prefix_def nth_append)

text \<open>
  A word whose first character does not come back later in it cannot overlap itself: if
  it starts inside \<open>a\<close> in \<open>a @ p @ r\<close>, it ends inside \<open>a\<close>.
\<close>

lemma no_overlap:
  assumes pre: "prefix p (a @ p @ r)" and ne: "a \<noteq> []" and p: "p \<noteq> []"
    and hd: "hd p \<notin> set (tl p)"
  shows "prefix p a"
proof (cases "length p \<le> length a")
  case True
  with pre show ?thesis
    by (metis prefix_length_prefix prefix_prefix prefix_order.order_refl)
next
  case False
  then have lt: "length a < length p" by simp
  from pre lt have "(a @ p @ r) ! length a = p ! length a"
    by (rule prefix_nth)
  moreover have "(a @ p @ r) ! length a = hd p"
    using p by (simp add: nth_append hd_conv_nth)
  moreover have "p ! length a \<in> set (tl p)"
  proof -
    from ne obtain n where n: "length a = Suc n" by (cases a) auto
    with lt have "n < length (tl p)" by simp
    then have "tl p ! n \<in> set (tl p)" by simp
    moreover have "tl p ! n = p ! Suc n" using p by (cases p) auto
    ultimately show ?thesis using n by simp
  qed
  ultimately show ?thesis using hd by simp
qed

lemma py_in_sublist: "py_in w s \<longleftrightarrow> sublist w s"
  by (induction s) (auto simp: sublist_Cons_right)

lemma find_close_skip:
  "\<not> sublist ''</think>'' m \<Longrightarrow> find_close (m @ ''</think>'' @ b) = Some b"
proof (induction m)
  case Nil
  show ?case by simp
next
  case (Cons c m)
  have "\<not> prefix ''</think>'' ((c # m) @ ''</think>'' @ b)"
  proof
    assume "prefix ''</think>'' ((c # m) @ ''</think>'' @ b)"
    then have "prefix ''</think>'' (c # m)"
      by (rule no_overlap) simp_all
    then have "sublist ''</think>'' (c # m)"
      by (simp add: sublist_Cons_right)
    with Cons.prems show False by simp
  qed
  moreover from Cons.prems have "\<not> sublist ''</think>'' m"
    by (simp add: sublist_Cons_right)
  ultimately show ?case using Cons.IH by (simp del: Cons_prefix_Cons)
qed

lemma sub_think_region:
  assumes "\<not> sublist ''<think>'' a" and "\<not> sublist ''</think>'' m"
  shows "sub_think (a @ ''<think>'' @ m @ ''</think>'' @ b) = a @ sub_think b"
  using assms(1)
proof (induction a)
  case Nil
  from assms(2) have "find_close (m @ ''</think>'' @ b) = Some b"
    by (rule find_close_skip)
  then show ?case by simp
next
  case (Cons c a)
  have "\<not> prefix ''<think>'' ((c # a) @ ''<think>'' @ m @ ''</think>'' @ b)"
  proof
    assume "prefix ''<think>'' ((c # a) @ ''<think>'' @ m @ ''</think>'' @ b)"
    then have "prefix ''<think>'' (c # a)"
      by (rule no_overlap) simp_all
    then have "sublist ''<think>'' (c # a)"
      by (simp add: sublist_Cons_right)
    with Cons.prems show False by simp
  qed
  moreover from Cons.prems have "\<not> sublist ''<think>'' a"
    by (simp add: sublist_Cons_right)
  ultimately show ?case using Cons.IH by (simp del: Cons_prefix_Cons)
qed

lemma sub_think_id: "\<not> sublist ''<think>'' s \<Longrightarrow> sub_think s = s"
proof (induction s)
  case Nil
  show ?case by simp
next
  case (Cons c s)
  then have "\<not> prefix ''<think>'' (c # s)" and "\<not> sublist ''<think>'' s"
    by (simp_all add: sublist_Cons_right)
  with Cons.IH show ?case by (simp del: Cons_prefix_Cons)
qed

lemma isspace_NL: "isspace NL"
  by (simp add: isspace_def)

lemma last_nl_append:
  "\<not> isspace x \<Longrightarrow> last_nl (cs @ x # w) = map_option (\<lambda>r. r @ x # w) (last_nl cs)"
  by (induction cs) (auto split: option.splits)

lemma sub_blank_append:
  "\<not> isspace x \<Longrightarrow> sub_blank (u @ x # w) = sub_blank u @ x # sub_blank w"
proof (induction u rule: sub_blank.induct)
  case 1
  then show ?case by (auto simp: isspace_NL)
next
  case (2 c cs)
  show ?case
  proof (cases "c = NL")
    case False
    with 2 show ?thesis by simp
  next
    case True
    show ?thesis
    proof (cases "last_nl cs")
      case None
      with True 2 show ?thesis by (simp add: last_nl_append)
    next
      case (Some r)
      with True 2 show ?thesis by (simp add: last_nl_append)
    qed
  qed
qed

lemma last_nl_run:
  "\<not> isspace y \<Longrightarrow> last_nl (replicate (Suc n) NL @ y # v) = Some (y # v)"
  by (induction n) (simp_all add: isspace_NL)

lemma sub_blank_run:
  assumes "\<not> isspace y" and "2 \<le> k"
  shows "sub_blank (replicate k NL @ y # v) = NL # NL # sub_blank (y # v)"
proof -
  from assms(2) obtain n where k: "k = Suc (Suc n)"
    by (metis Suc_le_D numeral_2_eq_2 Suc_le_mono)
  have "last_nl (replicate (Suc n) NL @ y # v) = Some (y # v)"
    using assms(1) by (rule last_nl_run)
  then show ?thesis
    unfolding k by simp
qed

lemma last_nl_not_NL: "last_nl s = Some r \<Longrightarrow> \<not> prefix [NL] r"
proof (induction s arbitrary: r)
  case Nil
  then show ?case by simp
next
  case (Cons c cs)
  show ?case
  proof (cases "last_nl cs")
    case (Some r')
    with Cons show ?thesis by (simp split: if_splits)
  next
    case None
    with Cons.prems have r: "r = cs" by (simp split: if_splits)
    from None have "\<not> prefix [NL] cs"
      by (cases cs) (auto simp: isspace_NL split: option.splits)
    with r show ?thesis by simp
  qed
qed

lemma not_prefix_NL: "\<not> prefix [NL] t \<Longrightarrow> \<not> prefix (NL # xs) t"
  by (cases t) auto

lemma sub_blank_hd: "\<not> prefix [NL] s \<Longrightarrow> \<not> prefix [NL] (sub_blank s)"
  by (cases s) auto

lemma sub_blank_no_triple: "\<not> sublist [NL, NL, NL] (sub_blank s)"
proof (induction s rule: sub_blank.induct)
  case 1
  show ?case by simp
next
  case (2 c cs)
  show ?case
  proof (cases "c = NL")
    case False
    with 2 show ?thesis by (simp add: sublist_Cons_right)
  next
    case True
    show ?thesis
    proof (cases "last_nl cs")
      case None
      then have "\<not> prefix [NL] cs"
        by (cases cs) (auto simp: isspace_NL split: option.splits)
      then have "\<not> prefix [NL] (sub_blank cs)"
        by (rule sub_blank_hd)
      then have "\<not> prefix [NL, NL] (sub_blank cs)"
        by (rule not_prefix_NL)
      with True None 2 show ?thesis by (simp add: sublist_Cons_right)
    next
      case (Some r)
      then have "\<not> prefix [NL] r"
        by (rule last_nl_not_NL)
      then have "\<not> prefix [NL] (sub_blank r)"
        by (rule sub_blank_hd)
      moreover from this have "\<not> prefix [NL, NL] (sub_blank r)"
        by (rule not_prefix_NL)
      ultimately show ?thesis using True Some 2 by (simp add: sublist_Cons_right)
    qed
  qed
qed

lemma strip_sublist: "sublist (strip s) s"
proof -
  have "suffix (dropWhile isspace s) s"
    by (rule suffix_dropWhile)
  moreover have "prefix (strip s) (dropWhile isspace s)"
  proof -
    have "suffix (dropWhile isspace (rev (dropWhile isspace s))) (rev (dropWhile isspace s))"
      by (rule suffix_dropWhile)
    then show ?thesis
      by (simp add: strip_def suffix_to_prefix)
  qed
  ultimately show ?thesis
    by (auto simp: sublist_altdef')
qed

lemma strip_ends:
  "strip s = [] \<or> \<not> isspace (hd (strip s)) \<and> \<not> isspace (last (strip s))"
proof (cases "strip s = []")
  case True
  then show ?thesis by simp
next
  case False
  let ?d = "dropWhile isspace s"
  let ?e = "dropWhile isspace (rev ?d)"
  from False have e: "?e \<noteq> []" by (simp add: strip_def)
  then have "\<not> isspace (hd ?e)" by (rule hd_dropWhile)
  then have l: "\<not> isspace (last (strip s))"
    using e by (simp add: strip_def last_rev)
  have "prefix (strip s) ?d"
    using suffix_dropWhile [of isspace "rev ?d"] by (simp add: strip_def suffix_to_prefix)
  then obtain zs where d: "?d = strip s @ zs"
    by (auto simp: prefix_def)
  with False have "?d \<noteq> []"
    by (simp del: dropWhile_eq_Nil_conv)
  then have "\<not> isspace (hd ?d)" by (rule hd_dropWhile)
  moreover from d False have "hd ?d = hd (strip s)"
    by (simp del: dropWhile_eq_Nil_conv)
  ultimately show ?thesis using l by simp
qed

section \<open>The claims on cleaning\<close>

text \<open>
  C5: cleaning a completion removes each region from a \<open><think>\<close> to the first
  \<open></think>\<close> behind it, the tags included, also across lines: for the first such
  region of the completion, what is cleaned further is the text before it and the rest
  behind it with its own regions removed. A run of three or more newlines between two
  characters that are not whitespace becomes exactly two newlines, and no cleaned
  completion has three newlines in a row. The result has no whitespace at its ends.
  Cleaning \<open><think>ignore this</think>Hello there\<close> gives \<open>Hello there\<close>, and four
  newlines between two lines of text become two.
\<close>

theorem clean_thinking_tags_spec:
  "(\<not> sublist ''<think>'' a \<and> \<not> sublist ''</think>'' m \<longrightarrow>
      clean_thinking_tags (a @ ''<think>'' @ m @ ''</think>'' @ b) =
        strip (sub_blank (a @ sub_think b)))
   \<and> (\<not> sublist ''<think>'' (u @ x # replicate k NL @ y # v) \<and>
        \<not> isspace x \<and> \<not> isspace y \<and> 3 \<le> k \<longrightarrow>
      clean_thinking_tags (u @ x # replicate k NL @ y # v) =
        strip (sub_blank u @ [x, NL, NL, y] @ sub_blank v))
   \<and> \<not> sublist [NL, NL, NL] (clean_thinking_tags s)
   \<and> (clean_thinking_tags s = [] \<or>
        \<not> isspace (hd (clean_thinking_tags s)) \<and> \<not> isspace (last (clean_thinking_tags s)))
   \<and> clean_thinking_tags ''<think>ignore this</think>Hello there'' = ''Hello there''
   \<and> clean_thinking_tags (''line one'' @ [NL, NL, NL, NL] @ ''line two'') =
        ''line one'' @ [NL, NL] @ ''line two''"
proof (intro conjI impI)
  assume "\<not> sublist ''<think>'' a \<and> \<not> sublist ''</think>'' m"
  then show "clean_thinking_tags (a @ ''<think>'' @ m @ ''</think>'' @ b) =
      strip (sub_blank (a @ sub_think b))"
    by (simp add: clean_thinking_tags_def sub_think_region del: append.simps)
next
  assume h: "\<not> sublist ''<think>'' (u @ x # replicate k NL @ y # v) \<and>
        \<not> isspace x \<and> \<not> isspace y \<and> 3 \<le> k"
  then have y: "y \<noteq> NL" by (auto simp: isspace_NL)
  from h have "sub_think (u @ x # replicate k NL @ y # v) = u @ x # replicate k NL @ y # v"
    by (intro sub_think_id) simp
  moreover from h have "sub_blank (u @ x # replicate k NL @ y # v) =
      sub_blank u @ x # sub_blank (replicate k NL @ y # v)"
    by (intro sub_blank_append) simp
  moreover from h have "sub_blank (replicate k NL @ y # v) = NL # NL # sub_blank (y # v)"
    by (intro sub_blank_run) simp_all
  ultimately show "clean_thinking_tags (u @ x # replicate k NL @ y # v) =
      strip (sub_blank u @ [x, NL, NL, y] @ sub_blank v)"
    using y by (simp add: clean_thinking_tags_def)
next
  have "sublist (clean_thinking_tags s) (sub_blank (sub_think s))"
    unfolding clean_thinking_tags_def by (rule strip_sublist)
  moreover have "\<not> sublist [NL, NL, NL] (sub_blank (sub_think s))"
    by (rule sub_blank_no_triple)
  ultimately show "\<not> sublist [NL, NL, NL] (clean_thinking_tags s)"
    using sublist_order.order_trans by blast
next
  show "clean_thinking_tags s = [] \<or>
        \<not> isspace (hd (clean_thinking_tags s)) \<and> \<not> isspace (last (clean_thinking_tags s))"
    unfolding clean_thinking_tags_def by (rule strip_ends)
next
  show "clean_thinking_tags ''<think>ignore this</think>Hello there'' = ''Hello there''"
    by (simp add: clean_thinking_tags_def strip_def isspace_def)
next
  show "clean_thinking_tags (''line one'' @ [NL, NL, NL, NL] @ ''line two'') =
        ''line one'' @ [NL, NL] @ ''line two''"
    by (simp add: clean_thinking_tags_def strip_def isspace_def)
qed

theorem clean_thinking_tags_spec_witness:
  "\<not> sublist ''<think>'' ''Sure! '' \<and> \<not> sublist ''</think>'' (''step 1'' @ [NL] @ ''step 2'')
   \<and> clean_thinking_tags (''Sure! <think>step 1'' @ [NL] @ ''step 2</think> Try Imagine.  '') =
       ''Sure!  Try Imagine.''
   \<and> \<not> sublist ''<think>'' (''Hi'' @ CHR ''.'' # replicate 5 NL @ CHR ''B'' # ''ye'')
   \<and> \<not> isspace CHR ''.'' \<and> \<not> isspace CHR ''B'' \<and> (3::nat) \<le> 5
   \<and> clean_thinking_tags (''Hi.'' @ [NL, NL, NL, NL, NL] @ ''Bye'') = ''Hi.'' @ [NL, NL] @ ''Bye''"
proof -
  have h1: "\<not> sublist ''<think>'' ''Sure! '' \<and> \<not> sublist ''</think>'' (''step 1'' @ [NL] @ ''step 2'')"
    by (simp add: sublist_Cons_right)
  have h2: "\<not> sublist ''<think>'' (''Hi'' @ CHR ''.'' # replicate 5 NL @ CHR ''B'' # ''ye'') \<and>
        \<not> isspace CHR ''.'' \<and> \<not> isspace CHR ''B'' \<and> (3::nat) \<le> 5"
    by (simp add: sublist_Cons_right isspace_def numeral_eq_Suc)
  have e1: "strip (sub_blank (''Sure! '' @ sub_think '' Try Imagine.  '')) = ''Sure!  Try Imagine.''"
    by (simp add: strip_def isspace_def)
  have e2: "strip (sub_blank ''Hi'' @ [CHR ''.'', NL, NL, CHR ''B''] @ sub_blank ''ye'') = ''Hi.'' @ [NL, NL] @ ''Bye''"
    by (simp add: strip_def isspace_def)
  have r: "replicate 5 NL = [NL, NL, NL, NL, NL]"
    by (simp add: numeral_eq_Suc)
  show ?thesis
    using h1 h2 e1 e2 r
      clean_thinking_tags_spec [where a = "''Sure! ''" and m = "''step 1'' @ [NL] @ ''step 2''"
        and b = "'' Try Imagine.  ''" and u = "''Hi''" and x = "CHR ''.''" and k = 5
        and y = "CHR ''B''" and v = "''ye''"]
    by simp
qed

section \<open>Lemmas on the agent\<close>

lemma foldl_lines:
  "foldl (\<lambda>acc r. acc @ f r) acc rows = acc @ concat (map f rows)"
  by (induction rows arbitrary: acc) simp_all

lemma get_recommendations_cases:
  "get_recommendations w q =
     (case recommend_songs w q 5 of
        Inl e \<Rightarrow> (Inr (''Error occurred while fetching recommendations: '' @ str e),
                  [Recommend_songs q 5])
      | Inr None \<Rightarrow> (Inr not_found_text, [Recommend_songs q 5])
      | Inr (Some rows) \<Rightarrow>
          if rows = [] then (Inr not_found_text, [Recommend_songs q 5])
          else (Inr (''Here are the recommended songs:'' @ [NL] @
                  concat (map (\<lambda>r. ''- '' @ song r @ '' by '' @ artist r @ [NL]) rows)),
                [Recommend_songs q 5]))"
  unfolding get_recommendations_def foldl_lines
  by (simp add: try_except_def and_then_def call_recommend_songs_def
      return_def split: sum.splits option.splits)

lemma prompt_llm_cases:
  "prompt_llm w h templates kwargs =
     (case format_messages w templates kwargs of
        Inl e \<Rightarrow> (Inl e, [])
      | Inr msgs \<Rightarrow> (invoke w h msgs, [Llm_invoke msgs]))"
  by (simp add: prompt_llm_def and_then_def lift_def call_invoke_def split: sum.splits)

lemma format_with_llm_cases:
  "llm self = Some h \<Longrightarrow>
   format_with_llm w self user_input recs =
     (case prompt_llm w h (format_prompt user_input recs) [] of
        (Inl e, t) \<Rightarrow> (Inr (''Could not format recommendations using LLM: '' @ str e), t)
      | (Inr content, t) \<Rightarrow> (Inr (clean_thinking_tags content), t))"
  by (simp add: format_with_llm_def try_except_def and_then_def return_def
      split: sum.splits prod.splits)

lemma general_conversation_cases:
  "try_except (general_conversation w h user_input)
     (\<lambda>e. return (''I encountered an error while processing your request: '' @ str e)) =
     (case prompt_llm w h general_prompt [(''input'', user_input)] of
        (Inl e, t) \<Rightarrow>
          (Inr (''I encountered an error while processing your request: '' @ str e), t)
      | (Inr content, t) \<Rightarrow> (Inr (clean_thinking_tags content), t))"
  by (simp add: general_conversation_def try_except_def and_then_def return_def
      split: sum.splits prod.splits)

lemma get_recommendations_returns:
  "\<exists>s. get_recommendations w q = (Inr s, [Recommend_songs q 5])"
  by (simp add: get_recommendations_cases split: sum.splits option.splits)

lemma format_with_llm_returns:
  "\<exists>s t. format_with_llm w self user_input recs = (Inr s, t)"
proof (cases "llm self")
  case None
  then show ?thesis by (simp add: format_with_llm_def return_def)
next
  case (Some h)
  then show ?thesis by (simp add: format_with_llm_cases split: sum.splits prod.splits)
qed

lemma try_except_Inr: "try_except (Inr x, t) handler = (Inr x, t)"
  by (simp add: try_except_def)

lemma chat_extracted:
  assumes "llm self = Some h" and "extracted_song user_input = Some q"
  shows "chat w self user_input =
     and_then (get_recommendations w q) (format_with_llm w self user_input)"
proof -
  obtain s where s: "get_recommendations w q = (Inr s, [Recommend_songs q 5])"
    using get_recommendations_returns by blast
  obtain s' t' where s': "format_with_llm w self user_input s = (Inr s', t')"
    using format_with_llm_returns by blast
  have "and_then (get_recommendations w q) (format_with_llm w self user_input) =
      (Inr s', Recommend_songs q 5 # t')"
    by (simp add: and_then_def s s')
  moreover have "chat w self user_input =
      try_except (and_then (get_recommendations w q) (format_with_llm w self user_input))
        (\<lambda>e. return (''I encountered an error while processing your request: '' @ str e))"
    using assms
    by (auto simp: chat_def extracted_song_def Let_def split: list.splits option.splits if_splits)
  ultimately show ?thesis
    by (simp add: try_except_Inr)
qed

lemma chat_general:
  assumes "llm self = Some h" and "extracted_song user_input = None"
  shows "chat w self user_input =
     try_except (general_conversation w h user_input)
       (\<lambda>e. return (''I encountered an error while processing your request: '' @ str e))"
  using assms
  by (auto simp: chat_def extracted_song_def Let_def split: list.splits option.splits if_splits)

lemma demo_agent_llm:
  "llm demo_agent = Some \<lparr>model = ''qwen/qwen3-32b'', groq_api_key = ''gsk-key'', temperature = 0\<rparr>"
  by (simp add: demo_agent_def init_def demo_world_def setup_agent_def py_or_def truthy_def
      or_str_def)

section \<open>The claims on the agent\<close>

text \<open>
  C2: when neither the \<open>api_key\<close> argument nor the variable \<open>GROQ_API_KEY\<close> gives a
  credential, the agent is built with no LLM handle; and for every input, an agent with
  no LLM handle answers \<open>chat\<close> with the fixed apology and calls neither the LLM nor
  the similarity backend.
\<close>

theorem chat_without_credential:
  "(\<not> truthy api_key_arg \<and> \<not> truthy (getenv w0 ''GROQ_API_KEY'') \<longrightarrow>
      llm (init w0 api_key_arg provider_arg model_name_arg) = None
      \<and> chat w (init w0 api_key_arg provider_arg model_name_arg) user_input =
          (Inr ''I'm sorry, I cannot process your request because the Groq API key is missing or invalid.'', []))
   \<and> (llm self = None \<longrightarrow>
      chat w self user_input =
        (Inr ''I'm sorry, I cannot process your request because the Groq API key is missing or invalid.'', []))"
  by (auto simp: init_def py_or_def truthy_def chat_def return_def no_llm_text_def
      split: option.splits list.splits)

theorem chat_without_credential_witness:
  "\<not> truthy (Some []) \<and> \<not> truthy (getenv demo_world ''GROQ_API_KEY'')
   \<and> llm (init demo_world (Some []) None None) = None
   \<and> chat demo_world (init demo_world (Some []) None None) ''recommend 'Yesterday' '' =
        (Inr ''I'm sorry, I cannot process your request because the Groq API key is missing or invalid.'', [])"
proof -
  have h: "\<not> truthy (Some []) \<and> \<not> truthy (getenv demo_world ''GROQ_API_KEY'')"
    by (simp add: truthy_def demo_world_def)
  show ?thesis
    using h chat_without_credential [of "Some []" demo_world None None demo_world
        "''recommend 'Yesterday' ''" "init demo_world (Some []) None None"]
    by simp
qed

text \<open>
  C8: when the backend returns a data frame with at least one row, the agent renders it
  as the heading line followed by one line \<open>- <song> by <artist>\<close> for each row, in the
  order of the rows.
\<close>

theorem get_recommendations_bullets:
  assumes "recommend_songs w q 5 = Inr (Some rows)" and "rows \<noteq> []"
  shows "get_recommendations w q =
     (Inr (''Here are the recommended songs:'' @ [NL] @
             concat (map (\<lambda>r. ''- '' @ song r @ '' by '' @ artist r @ [NL]) rows)),
      [Recommend_songs q 5])"
  using assms by (simp add: get_recommendations_cases)

theorem get_recommendations_bullets_witness:
  "recommend_songs demo_world ''Yesterday'' 5 =
     Inr (Some [\<lparr>artist = ''Queen'', song = ''Bohemian Rhapsody'', link = None, text_col = None\<rparr>,
                \<lparr>artist = ''ABBA'', song = ''Waterloo'', link = None, text_col = None\<rparr>])
   \<and> get_recommendations demo_world ''Yesterday'' =
     (Inr (''Here are the recommended songs:'' @ [NL] @
           ''- Bohemian Rhapsody by Queen'' @ [NL] @ ''- Waterloo by ABBA'' @ [NL]),
      [Recommend_songs ''Yesterday'' 5])"
proof -
  have h: "recommend_songs demo_world ''Yesterday'' 5 =
     Inr (Some [\<lparr>artist = ''Queen'', song = ''Bohemian Rhapsody'', link = None, text_col = None\<rparr>,
                \<lparr>artist = ''ABBA'', song = ''Waterloo'', link = None, text_col = None\<rparr>])"
    by (simp add: demo_world_def)
  show ?thesis
    using h get_recommendations_bullets [OF h] by simp
qed

section \<open>The claims on the API layer and the client\<close>

text \<open>
  C7: \<open>/recommend\<close> answers 404 exactly when the backend returns \<open>None\<close> for the
  requested song, and 500, with the message of the exception, when the backend raises;
  otherwise it returns the rows of the backend's data frame in their order. With the
  backend of the spec, an unknown song gives 404 and a known song gives the first
  \<open>top_n\<close> records of its ranking, all of them when there are fewer.
\<close>

theorem api_get_recommendations_status:
  "((\<exists>d. api_get_recommendations w request = Inl (HTTPException 404 d)) \<longleftrightarrow>
      recommend_songs w (song_name request) (top_n request) = Inr None)
   \<and> (recommend_songs w (song_name request) (top_n request) = Inr None \<longrightarrow>
        api_get_recommendations w request = Inl (HTTPException 404 ''Song not found''))
   \<and> (recommend_songs w (song_name request) (top_n request) = Inl e \<longrightarrow>
        api_get_recommendations w request = Inl (HTTPException 500 (str e)))
   \<and> (recommend_songs w (song_name request) (top_n request) = Inr (Some result_df) \<longrightarrow>
        api_get_recommendations w request = Inr result_df)
   \<and> (recommend_songs w = recommend_songs_spec matches \<longrightarrow>
        (matches (song_name request) = None \<longrightarrow>
           api_get_recommendations w request = Inl (HTTPException 404 ''Song not found''))
        \<and> (matches (song_name request) = Some ranked \<longrightarrow>
           api_get_recommendations w request = Inr (take (nat (top_n request)) ranked)
           \<and> length (take (nat (top_n request)) ranked) = min (nat (top_n request)) (length ranked)))"
  by (auto simp: api_get_recommendations_def to_dict_records_def recommend_songs_spec_def
      split: sum.splits option.splits raised.splits)

theorem api_get_recommendations_status_witness:
  "recommend_songs spec_world = recommend_songs_spec demo_matches
   \<and> demo_matches ''Nowhere Man'' = None
   \<and> api_get_recommendations spec_world \<lparr>song_name = ''Nowhere Man'', top_n = 5\<rparr> =
        Inl (HTTPException 404 ''Song not found'')
   \<and> api_get_recommendations spec_world \<lparr>song_name = ''Yesterday'', top_n = 2\<rparr> =
        Inr [\<lparr>artist = ''Queen'', song = ''Bohemian Rhapsody'', link = None, text_col = None\<rparr>,
             \<lparr>artist = ''ABBA'', song = ''Waterloo'', link = None, text_col = None\<rparr>]
   \<and> recommend_songs demo_world ''Help'' 5 = Inl (Exception ''matrix not loaded'')
   \<and> api_get_recommendations demo_world \<lparr>song_name = ''Help'', top_n = 5\<rparr> =
        Inl (HTTPException 500 ''matrix not loaded'')"
proof -
  have h: "recommend_songs spec_world = recommend_songs_spec demo_matches"
    by (simp add: spec_world_def)
  have n: "demo_matches ''Nowhere Man'' = None"
    and y: "demo_matches ''Yesterday'' =
        Some [\<lparr>artist = ''Queen'', song = ''Bohemian Rhapsody'', link = None, text_col = None\<rparr>,
              \<lparr>artist = ''ABBA'', song = ''Waterloo'', link = None, text_col = None\<rparr>,
              \<lparr>artist = ''Adele'', song = ''Hello'', link = None, text_col = None\<rparr>]"
    by (simp_all add: demo_matches_def)
  have e: "recommend_songs demo_world ''Help'' 5 = Inl (Exception ''matrix not loaded'')"
    by (simp add: demo_world_def)
  show ?thesis
    using h n y e
      api_get_recommendations_status [of spec_world "\<lparr>song_name = ''Nowhere Man'', top_n = 5\<rparr>"
        "Exception ''x''" "[]" demo_matches "[]"]
      api_get_recommendations_status [of spec_world "\<lparr>song_name = ''Yesterday'', top_n = 2\<rparr>"
        "Exception ''x''" "[]" demo_matches
        "[\<lparr>artist = ''Queen'', song = ''Bohemian Rhapsody'', link = None, text_col = None\<rparr>,
          \<lparr>artist = ''ABBA'', song = ''Waterloo'', link = None, text_col = None\<rparr>,
          \<lparr>artist = ''Adele'', song = ''Hello'', link = None, text_col = None\<rparr>]"]
      api_get_recommendations_status [of demo_world "\<lparr>song_name = ''Help'', top_n = 5\<rparr>"
        "Exception ''matrix not loaded''" "[]" demo_matches "[]"]
    by simp
qed

lemma set_dropna: "set (dropna col) = {x. Some x \<in> set col}"
  unfolding dropna_def by (induction col) (auto split: option.splits)

lemma unique_props: "distinct (unique xs) \<and> set (unique xs) = set xs"
  by (simp add: unique_def)

text \<open>
  C9: \<open>/songs\<close> returns the titles of the \<open>song\<close> column that are not missing, each
  once, sorted in the order of strings, and a count that is the length of that list.
\<close>

theorem api_get_all_songs_sorted:
  "\<exists>r. api_get_all_songs song_col = Inr r
       \<and> sorted (songs r) \<and> distinct (songs r)
       \<and> set (songs r) = {s. Some s \<in> set song_col}
       \<and> count r = length (songs r)"
  by (simp add: api_get_all_songs_def Let_def unique_props set_dropna)

theorem api_get_all_songs_sorted_witness:
  "api_get_all_songs [Some ''Waterloo'', None, Some ''Hello'', Some ''Waterloo'', Some ''Angie''] =
     Inr \<lparr>songs = [''Angie'', ''Hello'', ''Waterloo''], count = 3\<rparr>"
proof -
  have "sort (unique (dropna [Some ''Waterloo'', None, Some ''Hello'', Some ''Waterloo'', Some ''Angie''])) =
      [''Angie'', ''Hello'', ''Waterloo'']"
    by code_simp
  then show ?thesis
    using api_get_all_songs_sorted [of "[Some ''Waterloo'', None, Some ''Hello'', Some ''Waterloo'', Some ''Angie'']"]
    by (simp add: api_get_all_songs_def)
qed

text \<open>
  C10: when \<open>/chat\<close> answers with a 2xx status and a JSON object that has no member
  \<open>response\<close>, the client's \<open>chat_with_assistant\<close> returns the string
  \<open>No response received\<close> and raises nothing.
\<close>

theorem client_chat_missing_response_key:
  assumes "post (base_url @ ''/chat'') (JObj [(''message'', JStr message)]) 30 = Inr response"
    and "200 \<le> resp_status response" and "resp_status response < 300"
    and "resp_json response = Inr (JObj result)"
    and "''response'' \<notin> fst ` set result"
  shows "client_chat_with_assistant post base_url message = Inr (JStr ''No response received'')"
proof -
  from assms(5) have "map_of result ''response'' = None"
    by (simp add: map_of_eq_None_iff)
  with assms(1-4) show ?thesis
    by (simp add: client_chat_with_assistant_def)
qed

theorem client_chat_missing_response_key_witness:
  "demo_post (''http://localhost:8000'' @ ''/chat'') (JObj [(''message'', JStr ''hello'')]) 30 =
     Inr \<lparr>resp_status = 200, resp_json = Inr (JObj [(''reply'', JStr ''hi'')]), resp_http_error = []\<rparr>
   \<and> ''response'' \<notin> fst ` set [(''reply'', JStr ''hi'')]
   \<and> client_chat_with_assistant demo_post ''http://localhost:8000'' ''hello'' =
        Inr (JStr ''No response received'')"
proof -
  have p: "demo_post (''http://localhost:8000'' @ ''/chat'') (JObj [(''message'', JStr ''hello'')]) 30 =
     Inr \<lparr>resp_status = 200, resp_json = Inr (JObj [(''reply'', JStr ''hi'')]), resp_http_error = []\<rparr>"
    by (simp add: demo_post_def)
  have k: "''response'' \<notin> fst ` set [(''reply'', JStr ''hi'')]"
    by simp
  show ?thesis
    using p k client_chat_missing_response_key [of demo_post "''http://localhost:8000''" "''hello''"
        "\<lparr>resp_status = 200, resp_json = Inr (JObj [(''reply'', JStr ''hi'')]), resp_http_error = []\<rparr>"
        "[(''reply'', JStr ''hi'')]"]
    by simp
qed

section \<open>The claims on the song name\<close>

lemma findall_quoted_first:
  assumes "\<forall>(c, d) \<in> set (zip a (tl (a @ [q1]))). is_quote c \<longrightarrow> is_quote d"
    and "is_quote q1" and "body \<noteq> []" and "\<forall>c\<in>set body. \<not> is_quote c" and "is_quote q2"
  shows "findall_quoted (a @ q1 # body @ q2 # rest) = body # findall_quoted rest"
  using assms(1)
proof (induction a)
  case Nil
  have "takeWhile (\<lambda>x. \<not> is_quote x) (body @ q2 # rest) = body"
    using assms(4,5) by (simp add: takeWhile_append2 takeWhile_tail)
  moreover have "dropWhile (\<lambda>x. \<not> is_quote x) (body @ q2 # rest) = q2 # rest"
    using assms(4,5) by (simp add: dropWhile_append2 dropWhile_append3)
  ultimately show ?case
    using assms(2,3) by simp
next
  case (Cons c a)
  obtain x xs where x: "a @ [q1] = x # xs"
    by (cases "a @ [q1]") auto
  then have tl: "tl (a @ [q1]) = xs" by simp
  from Cons.prems x have step: "is_quote c \<longrightarrow> is_quote x"
    and rest: "\<forall>(c, d) \<in> set (zip a (tl (a @ [q1]))). is_quote c \<longrightarrow> is_quote d"
    by (simp_all add: tl)
  from x have eq: "a @ q1 # body @ q2 # rest = x # xs @ body @ q2 # rest"
    by (metis append_Cons append_assoc append_Nil)
  have "is_quote c \<longrightarrow> takeWhile (\<lambda>x. \<not> is_quote x) (a @ q1 # body @ q2 # rest) = []"
    unfolding eq using step by simp
  then have "findall_quoted ((c # a) @ q1 # body @ q2 # rest) =
      findall_quoted (a @ q1 # body @ q2 # rest)"
    by auto
  with Cons.IH [OF rest] show ?case by simp
qed

lemma trigger_iff:
  "list_ex (\<lambda>word. py_in word s) [''recommend'', ''suggestion'', ''similar'', ''like''] \<longleftrightarrow>
   (\<exists>word \<in> {''recommend'', ''suggestion'', ''similar'', ''like''}. sublist word s)"
  by (simp add: py_in_sublist)

text \<open>
  What the quote pattern gives \<open>chat\<close>: when the lower-cased message holds one of the
  words \<open>recommend\<close>, \<open>suggestion\<close>, \<open>similar\<close>, \<open>like\<close>, the song name looked up is the
  run of characters, which are not quotes and are at least one, between the first quote
  character that is not directly followed by another quote and the next quote character.
  Either of \<open>'\<close> and \<open>"\<close> opens and closes such a run, and the pattern \<open>similar to\<close> is
  not tried.
\<close>

lemma chat_first_quote_run:
  assumes "llm self = Some h"
    and "\<exists>word \<in> {''recommend'', ''suggestion'', ''similar'', ''like''}.
           sublist word (lower user_input)"
    and "user_input = a @ q1 # body @ q2 # rest"
    and "\<forall>(c, d) \<in> set (zip a (tl (a @ [q1]))). is_quote c \<longrightarrow> is_quote d"
    and "is_quote q1" and "is_quote q2" and "body \<noteq> []" and "\<forall>c\<in>set body. \<not> is_quote c"
  shows "extracted_song user_input = Some body
     \<and> chat w self user_input =
         and_then (get_recommendations w body) (format_with_llm w self user_input)
     \<and> (\<exists>t. snd (chat w self user_input) = Recommend_songs body 5 # t)"
proof -
  have "findall_quoted user_input = body # findall_quoted rest"
    unfolding assms(3) using assms(4,5,7,8,6) by (rule findall_quoted_first)
  moreover have "list_ex (\<lambda>word. py_in word (lower user_input))
      [''recommend'', ''suggestion'', ''similar'', ''like'']"
    using assms(2) by (simp only: trigger_iff)
  ultimately have e: "extracted_song user_input = Some body"
    by (simp add: extracted_song_def Let_def del: list_ex_Cons_iff)
  with assms(1) have c: "chat w self user_input =
      and_then (get_recommendations w body) (format_with_llm w self user_input)"
    by (rule chat_extracted)
  obtain s where s: "get_recommendations w body = (Inr s, [Recommend_songs body 5])"
    using get_recommendations_returns by blast
  have "\<exists>t. snd (chat w self user_input) = Recommend_songs body 5 # t"
    unfolding c by (simp add: and_then_def s split: prod.splits)
  with e c show ?thesis by simp
qed

lemma until_end_text:
  assumes "\<forall>c\<in>set t. c \<noteq> CHR ''?'' \<and> c \<noteq> CHR ''.'' \<and> c \<noteq> NL"
    and "rest = [] \<or> hd rest = CHR ''?'' \<or> hd rest = CHR ''.''"
  shows "until_end (t @ rest) = Some t"
  using assms(1)
proof (induction t)
  case Nil
  from assms(2) show ?case by (cases rest) auto
next
  case (Cons c t)
  then show ?case by simp
qed

lemma similar_to_group_text:
  assumes "t \<noteq> []" and "\<forall>c\<in>set t. c \<noteq> CHR ''?'' \<and> c \<noteq> CHR ''.'' \<and> c \<noteq> NL"
    and "rest = [] \<or> hd rest = CHR ''?'' \<or> hd rest = CHR ''.''"
  shows "similar_to_group (t @ rest) = Some t"
proof -
  from assms(1) obtain c t' where t: "t = c # t'" by (cases t) auto
  with assms(2) have "until_end (t' @ rest) = Some t'"
    using assms(3) by (intro until_end_text) simp_all
  with t assms(2) show ?thesis
    by (simp add: similar_to_group_def)
qed

lemma search_similar_to_first:
  assumes "\<not> sublist ''similar to '' a" and "similar_to_group s = Some g"
  shows "search_similar_to (a @ ''similar to '' @ s) = Some g"
  using assms(1)
proof (induction a)
  case Nil
  from assms(2) show ?case by simp
next
  case (Cons c a)
  have "\<not> prefix ''similar to '' ((c # a) @ ''similar to '' @ s)"
  proof
    assume "prefix ''similar to '' ((c # a) @ ''similar to '' @ s)"
    then have "prefix ''similar to '' (c # a)"
      by (rule no_overlap) simp_all
    then have "sublist ''similar to '' (c # a)"
      by (simp add: sublist_Cons_right)
    with Cons.prems show False by simp
  qed
  moreover from Cons.prems have "\<not> sublist ''similar to '' a"
    by (simp add: sublist_Cons_right)
  ultimately show ?case using Cons.IH by (simp del: Cons_prefix_Cons)
qed

lemma until_end_set: "until_end s = Some g \<Longrightarrow> set g \<subseteq> set s"
  by (induction s arbitrary: g) (auto split: if_splits)

lemma similar_to_group_set:
  assumes "similar_to_group s = Some g"
  shows "set g \<subseteq> set s"
proof (cases s)
  case Nil
  with assms show ?thesis by (simp add: similar_to_group_def)
next
  case (Cons c cs)
  with assms obtain z where z: "until_end cs = Some z" and g: "g = c # z"
    by (auto simp: similar_to_group_def split: if_splits)
  from z have "set z \<subseteq> set cs" by (rule until_end_set)
  with g Cons show ?thesis by auto
qed

lemma search_similar_to_found:
  "search_similar_to s = Some g \<Longrightarrow> set g \<subseteq> set s \<and> sublist ''similar to '' s"
proof (induction s)
  case Nil
  then show ?case by simp
next
  case (Cons c cs)
  show ?case
  proof (cases "prefix ''similar to '' (c # cs) \<and> similar_to_group (drop 11 (c # cs)) \<noteq> None")
    case True
    with Cons.prems have "similar_to_group (drop 11 (c # cs)) = Some g"
      by (auto simp del: Cons_prefix_Cons drop_Suc_Cons)
    then have "set g \<subseteq> set (drop 11 (c # cs))"
      by (rule similar_to_group_set)
    then have "set g \<subseteq> set (c # cs)"
      using set_drop_subset by fastforce
    moreover from True have "sublist ''similar to '' (c # cs)"
      by (simp only: prefix_imp_sublist)
    ultimately show ?thesis by simp
  next
    case False
    with Cons.prems have "search_similar_to cs = Some g"
      by (auto simp del: Cons_prefix_Cons drop_Suc_Cons split: if_splits option.splits)
    with Cons.IH show ?thesis
      by (auto simp: sublist_Cons_right)
  qed
qed

lemma lower_char_idem: "lower_char (lower_char c) = lower_char c"
  by (auto simp: lower_char_def Let_def)

lemma lower_fixed:
  assumes "set g \<subseteq> set (lower s)"
  shows "lower g = g"
proof -
  have "lower_char c = c" if "c \<in> set g" for c
  proof -
    from that assms obtain d where "c = lower_char d"
      by (auto simp: lower_def)
    then show ?thesis by (simp add: lower_char_idem)
  qed
  then show ?thesis
    by (simp add: lower_def map_idI)
qed

lemma similar_to_lookup:
  assumes "llm self = Some h" and "findall_quoted user_input = []"
    and "search_similar_to (lower user_input) = Some g"
  shows "extracted_song user_input = Some (strip g) \<and> lower (strip g) = strip g
      \<and> chat w self user_input =
          and_then (get_recommendations w (strip g)) (format_with_llm w self user_input)
      \<and> (\<exists>t. snd (chat w self user_input) = Recommend_songs (strip g) 5 # t)"
proof (intro conjI)
  from assms(3) have found: "set g \<subseteq> set (lower user_input)"
    and sub: "sublist ''similar to '' (lower user_input)"
    using search_similar_to_found by blast+
  have "sublist ''similar'' ''similar to ''"
    by (simp add: sublist_Cons_right)
  with sub have "sublist ''similar'' (lower user_input)"
    using sublist_order.order_trans by blast
  then have "list_ex (\<lambda>word. py_in word (lower user_input))
      [''recommend'', ''suggestion'', ''similar'', ''like'']"
    by (simp add: py_in_sublist)
  with assms(2,3) show e: "extracted_song user_input = Some (strip g)"
    by (simp add: extracted_song_def Let_def del: list_ex_Cons_iff)
  have "set (strip g) \<subseteq> set g"
    using strip_sublist by (rule set_mono_sublist)
  with found have "set (strip g) \<subseteq> set (lower user_input)" by simp
  then show "lower (strip g) = strip g" by (rule lower_fixed)
  from assms(1) e show c: "chat w self user_input =
      and_then (get_recommendations w (strip g)) (format_with_llm w self user_input)"
    by (rule chat_extracted)
  obtain s where s: "get_recommendations w (strip g) = (Inr s, [Recommend_songs (strip g) 5])"
    using get_recommendations_returns by blast
  show "\<exists>t. snd (chat w self user_input) = Recommend_songs (strip g) 5 # t"
    unfolding c by (simp add: and_then_def s split: prod.splits)
qed

lemma search_similar_to_text:
  assumes "\<not> sublist ''similar to '' a" and "title \<noteq> []"
    and "\<not> list_ex (\<lambda>c. c = CHR ''?'' \<or> c = CHR ''.'' \<or> c = NL) title"
    and "rest = [] \<or> hd rest = CHR ''?'' \<or> hd rest = CHR ''.''"
  shows "search_similar_to (a @ ''similar to '' @ title @ rest) = Some title"
proof -
  from assms(3) have "\<forall>c\<in>set title. c \<noteq> CHR ''?'' \<and> c \<noteq> CHR ''.'' \<and> c \<noteq> NL"
    by (auto simp: list_ex_iff)
  with assms(2,4) have "similar_to_group (title @ rest) = Some title"
    by (intro similar_to_group_text) simp_all
  with assms(1) show ?thesis
    by (rule search_similar_to_first)
qed

text \<open>
  C4, as the code has it: take a message in which the quote pattern of \<open>chat\<close> finds
  nothing, and whose lower-cased form has, behind its first \<open>similar to\<close>, a text that is
  not empty, has no newline, and runs up to a question mark, a period or the end of the
  message. Then the pattern \<open>similar to\<close> captures that text, and the song name that
  \<open>chat\<close> looks up is the text with the whitespace at its ends removed, which is
  lower-cased. More generally, whenever the pattern matches the lower-cased form of such
  a message, the stripped capture is looked up. For
  \<open>can you recommend something similar to Yesterday?\<close> the song name is \<open>yesterday\<close>.
\<close>

theorem chat_similar_to_song:
  "(llm self = Some h \<and> findall_quoted user_input = []
      \<and> lower user_input = a @ ''similar to '' @ title @ rest \<and> \<not> sublist ''similar to '' a
      \<and> title \<noteq> [] \<and> \<not> list_ex (\<lambda>c. c = CHR ''?'' \<or> c = CHR ''.'' \<or> c = NL) title
      \<and> (rest = [] \<or> hd rest = CHR ''?'' \<or> hd rest = CHR ''.'') \<longrightarrow>
      search_similar_to (lower user_input) = Some title
      \<and> extracted_song user_input = Some (strip title) \<and> lower (strip title) = strip title
      \<and> chat w self user_input =
          and_then (get_recommendations w (strip title)) (format_with_llm w self user_input)
      \<and> (\<exists>t. snd (chat w self user_input) = Recommend_songs (strip title) 5 # t))
   \<and> (llm self = Some h \<and> findall_quoted user_input = []
      \<and> search_similar_to (lower user_input) = Some g \<longrightarrow>
      extracted_song user_input = Some (strip g) \<and> lower (strip g) = strip g
      \<and> chat w self user_input =
          and_then (get_recommendations w (strip g)) (format_with_llm w self user_input)
      \<and> (\<exists>t. snd (chat w self user_input) = Recommend_songs (strip g) 5 # t))
   \<and> extracted_song ''can you recommend something similar to Yesterday?'' = Some ''yesterday''"
proof (intro conjI)
  show "llm self = Some h \<and> findall_quoted user_input = []
      \<and> lower user_input = a @ ''similar to '' @ title @ rest \<and> \<not> sublist ''similar to '' a
      \<and> title \<noteq> [] \<and> \<not> list_ex (\<lambda>c. c = CHR ''?'' \<or> c = CHR ''.'' \<or> c = NL) title
      \<and> (rest = [] \<or> hd rest = CHR ''?'' \<or> hd rest = CHR ''.'') \<longrightarrow>
      search_similar_to (lower user_input) = Some title
      \<and> extracted_song user_input = Some (strip title) \<and> lower (strip title) = strip title
      \<and> chat w self user_input =
          and_then (get_recommendations w (strip title)) (format_with_llm w self user_input)
      \<and> (\<exists>t. snd (chat w self user_input) = Recommend_songs (strip title) 5 # t)"
  proof
    assume h: "llm self = Some h \<and> findall_quoted user_input = []
      \<and> lower user_input = a @ ''similar to '' @ title @ rest \<and> \<not> sublist ''similar to '' a
      \<and> title \<noteq> [] \<and> \<not> list_ex (\<lambda>c. c = CHR ''?'' \<or> c = CHR ''.'' \<or> c = NL) title
      \<and> (rest = [] \<or> hd rest = CHR ''?'' \<or> hd rest = CHR ''.'')"
    then have "search_similar_to (a @ ''similar to '' @ title @ rest) = Some title"
      by (intro search_similar_to_text) simp_all
    with h have s: "search_similar_to (lower user_input) = Some title"
      by simp
    from h have "llm self = Some h" and "findall_quoted user_input = []"
      by simp_all
    from this s have "extracted_song user_input = Some (strip title) \<and> lower (strip title) = strip title
      \<and> chat w self user_input =
          and_then (get_recommendations w (strip title)) (format_with_llm w self user_input)
      \<and> (\<exists>t. snd (chat w self user_input) = Recommend_songs (strip title) 5 # t)"
      by (rule similar_to_lookup)
    with s show "search_similar_to (lower user_input) = Some title
      \<and> extracted_song user_input = Some (strip title) \<and> lower (strip title) = strip title
      \<and> chat w self user_input =
          and_then (get_recommendations w (strip title)) (format_with_llm w self user_input)
      \<and> (\<exists>t. snd (chat w self user_input) = Recommend_songs (strip title) 5 # t)"
      by (rule conjI)
  qed
next
  show "llm self = Some h \<and> findall_quoted user_input = []
      \<and> search_similar_to (lower user_input) = Some g \<longrightarrow>
      extracted_song user_input = Some (strip g) \<and> lower (strip g) = strip g
      \<and> chat w self user_input =
          and_then (get_recommendations w (strip g)) (format_with_llm w self user_input)
      \<and> (\<exists>t. snd (chat w self user_input) = Recommend_songs (strip g) 5 # t)"
  proof
    assume "llm self = Some h \<and> findall_quoted user_input = []
      \<and> search_similar_to (lower user_input) = Some g"
    then have "llm self = Some h" and "findall_quoted user_input = []"
      and "search_similar_to (lower user_input) = Some g"
      by simp_all
    then show "extracted_song user_input = Some (strip g) \<and> lower (strip g) = strip g
      \<and> chat w self user_input =
          and_then (get_recommendations w (strip g)) (format_with_llm w self user_input)
      \<and> (\<exists>t. snd (chat w self user_input) = Recommend_songs (strip g) 5 # t)"
      by (rule similar_to_lookup)
  qed
next
  have "lower ''can you recommend something similar to Yesterday?'' =
      ''can you recommend something similar to yesterday?''"
    by code_simp
  then show "extracted_song ''can you recommend something similar to Yesterday?'' = Some ''yesterday''"
    by (simp add: extracted_song_def similar_to_group_def strip_def isspace_def is_quote_def)
qed

theorem chat_similar_to_song_witness:
  "llm demo_agent \<noteq> None
   \<and> findall_quoted ''Play something SIMILAR TO  Hey Jude . Thanks'' = []
   \<and> \<not> sublist ''similar to '' ''play something ''
   \<and> search_similar_to (lower ''Play something SIMILAR TO  Hey Jude . Thanks'') = Some '' hey jude ''
   \<and> extracted_song ''Play something SIMILAR TO  Hey Jude . Thanks'' = Some ''hey jude''
   \<and> (\<exists>t. snd (chat demo_world demo_agent ''Play something SIMILAR TO  Hey Jude . Thanks'') =
          Recommend_songs ''hey jude'' 5 # t)"
proof -
  have l: "lower ''Play something SIMILAR TO  Hey Jude . Thanks'' =
      ''play something '' @ ''similar to '' @ '' hey jude '' @ ''. thanks''"
    by code_simp
  have h1: "llm demo_agent =
      Some \<lparr>model = ''qwen/qwen3-32b'', groq_api_key = ''gsk-key'', temperature = 0\<rparr>"
    by (rule demo_agent_llm)
  have q: "findall_quoted ''Play something SIMILAR TO  Hey Jude . Thanks'' = []"
    by (simp add: is_quote_def)
  have a: "\<not> sublist ''similar to '' ''play something ''"
    by (simp add: sublist_Cons_right)
  have t: "'' hey jude '' \<noteq> [] \<and>
      \<not> list_ex (\<lambda>c. c = CHR ''?'' \<or> c = CHR ''.'' \<or> c = NL) '' hey jude '' \<and>
      (''. thanks'' = [] \<or> hd ''. thanks'' = CHR ''?'' \<or> hd ''. thanks'' = CHR ''.'')"
    by simp
  have st: "strip '' hey jude '' = ''hey jude''"
    by (simp add: strip_def isspace_def)
  note main = chat_similar_to_song [where self = demo_agent
      and h = "\<lparr>model = ''qwen/qwen3-32b'', groq_api_key = ''gsk-key'', temperature = 0\<rparr>"
      and user_input = "''Play something SIMILAR TO  Hey Jude . Thanks''"
      and g = "'' hey jude ''" and w = demo_world and a = "''play something ''"
      and title = "'' hey jude ''" and rest = "''. thanks''"]
  from main h1 q l a t
  have s: "search_similar_to (lower ''Play something SIMILAR TO  Hey Jude . Thanks'') =
      Some '' hey jude ''"
    and e: "extracted_song ''Play something SIMILAR TO  Hey Jude . Thanks'' =
      Some (strip '' hey jude '')"
    and c: "\<exists>t. snd (chat demo_world demo_agent ''Play something SIMILAR TO  Hey Jude . Thanks'') =
          Recommend_songs (strip '' hey jude '') 5 # t"
    by blast+
  from h1 have n: "llm demo_agent \<noteq> None" by simp
  show ?thesis
    using n q a s e c unfolding st by (intro conjI)
qed

section \<open>The claims on the replies of \<open>chat\<close>\<close>

lemma chat_extracted_cases:
  assumes "llm self = Some h" and "extracted_song user_input = Some q"
    and "get_recommendations w q = (Inr recs, [Recommend_songs q 5])"
  shows "chat w self user_input =
     (case prompt_llm w h (format_prompt user_input recs) [] of
        (Inl e, t) \<Rightarrow>
          (Inr (''Could not format recommendations using LLM: '' @ str e), Recommend_songs q 5 # t)
      | (Inr content, t) \<Rightarrow> (Inr (clean_thinking_tags content), Recommend_songs q 5 # t))"
proof -
  from assms(1,2) have "chat w self user_input =
      and_then (get_recommendations w q) (format_with_llm w self user_input)"
    by (rule chat_extracted)
  then show ?thesis
    using assms(1,3)
    by (simp add: and_then_def format_with_llm_cases split: sum.splits prod.splits)
qed

text \<open>
  C1, as the code has it: when the backend returns \<open>None\<close> or an empty data frame for
  the song name that \<open>chat\<close> extracted, \<open>_get_recommendations\<close> gives exactly
  \<open>Song not found in the database. Please try another song.\<close> after the one backend
  call and no LLM call; \<open>chat\<close> then hands that text to the LLM formatting step like any
  recommendations text, and its reply is the cleaned completion, or
  \<open>Could not format recommendations using LLM: \<close> with the message of the exception when
  that step raises.
\<close>

theorem chat_song_not_found:
  assumes "llm self = Some h" and "extracted_song user_input = Some q"
    and "recommend_songs w q 5 = Inr None \<or> recommend_songs w q 5 = Inr (Some [])"
  shows "get_recommendations w q =
       (Inr ''Song not found in the database. Please try another song.'', [Recommend_songs q 5])
     \<and> chat w self user_input =
       (case prompt_llm w h
          (format_prompt user_input ''Song not found in the database. Please try another song.'') [] of
          (Inl e, t) \<Rightarrow>
            (Inr (''Could not format recommendations using LLM: '' @ str e), Recommend_songs q 5 # t)
        | (Inr content, t) \<Rightarrow> (Inr (clean_thinking_tags content), Recommend_songs q 5 # t))"
proof -
  from assms(3) have g: "get_recommendations w q = (Inr not_found_text, [Recommend_songs q 5])"
    by (auto simp: get_recommendations_cases)
  from assms(1,2) g have "chat w self user_input =
     (case prompt_llm w h (format_prompt user_input not_found_text) [] of
        (Inl e, t) \<Rightarrow>
          (Inr (''Could not format recommendations using LLM: '' @ str e), Recommend_songs q 5 # t)
      | (Inr content, t) \<Rightarrow> (Inr (clean_thinking_tags content), Recommend_songs q 5 # t))"
    by (rule chat_extracted_cases)
  with g show ?thesis
    by (simp add: not_found_text_def)
qed

lemma demo_extracted:
  "extracted_song ''recommend 'Nowhere Man' please'' = Some ''Nowhere Man''"
proof -
  have "lower ''recommend 'Nowhere Man' please'' = ''recommend 'nowhere man' please''"
    by code_simp
  then show ?thesis
    by (simp add: extracted_song_def is_quote_def)
qed

lemma demo_prompt_llm:
  "prompt_llm demo_world h templates kwargs =
     (Inr ''<think>friendly</think>Enjoy the music!'', [Llm_invoke templates])"
  by (simp add: prompt_llm_cases demo_world_def)

lemma demo_clean: "clean_thinking_tags ''<think>friendly</think>Enjoy the music!'' = ''Enjoy the music!''"
  by (simp add: clean_thinking_tags_def strip_def isspace_def)

theorem chat_song_not_found_witness:
  "llm demo_agent \<noteq> None
   \<and> extracted_song ''recommend 'Nowhere Man' please'' = Some ''Nowhere Man''
   \<and> recommend_songs demo_world ''Nowhere Man'' 5 = Inr None
   \<and> get_recommendations demo_world ''Nowhere Man'' =
       (Inr ''Song not found in the database. Please try another song.'',
        [Recommend_songs ''Nowhere Man'' 5])
   \<and> chat demo_world demo_agent ''recommend 'Nowhere Man' please'' =
       (Inr ''Enjoy the music!'',
        [Recommend_songs ''Nowhere Man'' 5,
         Llm_invoke (format_prompt ''recommend 'Nowhere Man' please''
           ''Song not found in the database. Please try another song.'')])"
proof -
  have b: "recommend_songs demo_world ''Nowhere Man'' 5 = Inr None"
    by (simp add: demo_world_def)
  then have b': "recommend_songs demo_world ''Nowhere Man'' 5 = Inr None \<or>
      recommend_songs demo_world ''Nowhere Man'' 5 = Inr (Some [])"
    by (rule disjI1)
  note main = chat_song_not_found [OF demo_agent_llm demo_extracted b']
  from demo_agent_llm have n: "llm demo_agent \<noteq> None" by simp
  from main have g: "get_recommendations demo_world ''Nowhere Man'' =
       (Inr ''Song not found in the database. Please try another song.'',
        [Recommend_songs ''Nowhere Man'' 5])"
    by (rule conjunct1)
  from main have c: "chat demo_world demo_agent ''recommend 'Nowhere Man' please'' =
       (Inr ''Enjoy the music!'',
        [Recommend_songs ''Nowhere Man'' 5,
         Llm_invoke (format_prompt ''recommend 'Nowhere Man' please''
           ''Song not found in the database. Please try another song.'')])"
    by (simp only: demo_prompt_llm demo_clean prod.case sum.case)
  show ?thesis
    by (intro conjI n demo_extracted b g c)
qed

text \<open>
  C1 as stated fails: for a song the backend does not know, the reply of \<open>chat\<close> is what
  the model made of the fallback text, and the model was called.
\<close>

theorem chat_song_not_found_counterexample:
  "llm demo_agent \<noteq> None
   \<and> extracted_song ''recommend 'Nowhere Man' please'' = Some ''Nowhere Man''
   \<and> recommend_songs demo_world ''Nowhere Man'' 5 = Inr None
   \<and> fst (chat demo_world demo_agent ''recommend 'Nowhere Man' please'') = Inr ''Enjoy the music!''
   \<and> fst (chat demo_world demo_agent ''recommend 'Nowhere Man' please'') \<noteq>
        Inr ''Song not found in the database. Please try another song.''
   \<and> snd (chat demo_world demo_agent ''recommend 'Nowhere Man' please'') =
        [Recommend_songs ''Nowhere Man'' 5,
         Llm_invoke (format_prompt ''recommend 'Nowhere Man' please''
           ''Song not found in the database. Please try another song.'')]"
proof -
  have b: "recommend_songs demo_world ''Nowhere Man'' 5 = Inr None"
    by (simp add: demo_world_def)
  then have g: "get_recommendations demo_world ''Nowhere Man'' =
      (Inr not_found_text, [Recommend_songs ''Nowhere Man'' 5])"
    by (simp add: get_recommendations_cases)
  have c: "chat demo_world demo_agent ''recommend 'Nowhere Man' please'' =
       (Inr ''Enjoy the music!'',
        [Recommend_songs ''Nowhere Man'' 5,
         Llm_invoke (format_prompt ''recommend 'Nowhere Man' please'' not_found_text)])"
    using chat_extracted_cases [OF demo_agent_llm demo_extracted g]
    by (simp only: demo_prompt_llm demo_clean prod.case sum.case)
  from demo_agent_llm have n: "llm demo_agent \<noteq> None" by simp
  from c have f: "fst (chat demo_world demo_agent ''recommend 'Nowhere Man' please'') =
      Inr ''Enjoy the music!''"
    by simp
  then have d: "fst (chat demo_world demo_agent ''recommend 'Nowhere Man' please'') \<noteq>
        Inr ''Song not found in the database. Please try another song.''"
    by simp
  from c have t: "snd (chat demo_world demo_agent ''recommend 'Nowhere Man' please'') =
        [Recommend_songs ''Nowhere Man'' 5,
         Llm_invoke (format_prompt ''recommend 'Nowhere Man' please''
           ''Song not found in the database. Please try another song.'')]"
    by (simp add: not_found_text_def)
  show ?thesis
    by (intro conjI n demo_extracted b f d t)
qed

lemma chat_returns: "\<exists>s t. chat w self user_input = (Inr s, t)"
proof (cases "llm self")
  case None
  then show ?thesis by (simp add: chat_def return_def)
next
  case (Some h)
  show ?thesis
  proof (cases "extracted_song user_input")
    case None
    with Some have "chat w self user_input =
        try_except (general_conversation w h user_input)
          (\<lambda>e. return (''I encountered an error while processing your request: '' @ str e))"
      by (rule chat_general)
    then have "chat w self user_input =
       (case prompt_llm w h general_prompt [(''input'', user_input)] of
          (Inl e, t) \<Rightarrow>
            (Inr (''I encountered an error while processing your request: '' @ str e), t)
        | (Inr content, t) \<Rightarrow> (Inr (clean_thinking_tags content), t))"
      by (simp only: general_conversation_cases)
    then show ?thesis
      by (simp split: sum.splits prod.splits)
  next
    case (Some q)
    obtain recs where "get_recommendations w q = (Inr recs, [Recommend_songs q 5])"
      using get_recommendations_returns by blast
    with \<open>llm self = Some h\<close> Some show ?thesis
      by (simp add: chat_extracted_cases split: sum.splits prod.splits)
  qed
qed

text \<open>
  C6, as the code has it: for every input \<open>chat\<close> returns a string and raises nothing.
  An exception of the backend lookup becomes, in \<open>_get_recommendations\<close>, the text
  \<open>Error occurred while fetching recommendations: \<close> with its message, which \<open>chat\<close>
  hands to the LLM formatting step like any recommendations text; an exception of the
  formatting step makes \<open>chat\<close> return \<open>Could not format recommendations using LLM: \<close>
  with its message; an exception of the general conversation makes \<open>chat\<close> return
  \<open>I encountered an error while processing your request: \<close> with its message.
\<close>

theorem chat_never_raises:
  "(\<exists>s t. chat w self user_input = (Inr s, t))
   \<and> (recommend_songs w q 5 = Inl e \<longrightarrow>
        get_recommendations w q =
          (Inr (''Error occurred while fetching recommendations: '' @ str e),
           [Recommend_songs q 5]))
   \<and> (llm self = Some h \<and> extracted_song user_input = Some q
        \<and> recommend_songs w q 5 = Inl e \<longrightarrow>
        chat w self user_input =
          (case prompt_llm w h (format_prompt user_input
                  (''Error occurred while fetching recommendations: '' @ str e)) [] of
             (Inl e', t) \<Rightarrow>
               (Inr (''Could not format recommendations using LLM: '' @ str e'),
                Recommend_songs q 5 # t)
           | (Inr content, t) \<Rightarrow> (Inr (clean_thinking_tags content), Recommend_songs q 5 # t)))
   \<and> (llm self = Some h \<and> extracted_song user_input = Some q
        \<and> fst (get_recommendations w q) = Inr recs
        \<and> fst (prompt_llm w h (format_prompt user_input recs) []) = Inl e \<longrightarrow>
        fst (chat w self user_input) =
          Inr (''Could not format recommendations using LLM: '' @ str e))
   \<and> (llm self = Some h \<and> extracted_song user_input = None
        \<and> fst (prompt_llm w h general_prompt [(''input'', user_input)]) = Inl e \<longrightarrow>
        fst (chat w self user_input) =
          Inr (''I encountered an error while processing your request: '' @ str e))"
proof (intro conjI impI)
  show "\<exists>s t. chat w self user_input = (Inr s, t)"
    by (rule chat_returns)
next
  assume "recommend_songs w q 5 = Inl e"
  then show "get_recommendations w q =
      (Inr (''Error occurred while fetching recommendations: '' @ str e), [Recommend_songs q 5])"
    by (simp add: get_recommendations_cases)
next
  assume h: "llm self = Some h \<and> extracted_song user_input = Some q
        \<and> recommend_songs w q 5 = Inl e"
  then have "get_recommendations w q =
      (Inr (''Error occurred while fetching recommendations: '' @ str e), [Recommend_songs q 5])"
    by (simp add: get_recommendations_cases)
  with h show "chat w self user_input =
          (case prompt_llm w h (format_prompt user_input
                  (''Error occurred while fetching recommendations: '' @ str e)) [] of
             (Inl e', t) \<Rightarrow>
               (Inr (''Could not format recommendations using LLM: '' @ str e'),
                Recommend_songs q 5 # t)
           | (Inr content, t) \<Rightarrow> (Inr (clean_thinking_tags content), Recommend_songs q 5 # t))"
    by (intro chat_extracted_cases) simp_all
next
  assume h: "llm self = Some h \<and> extracted_song user_input = Some q
        \<and> fst (get_recommendations w q) = Inr recs
        \<and> fst (prompt_llm w h (format_prompt user_input recs) []) = Inl e"
  obtain s where "get_recommendations w q = (Inr s, [Recommend_songs q 5])"
    using get_recommendations_returns by blast
  with h have g: "get_recommendations w q = (Inr recs, [Recommend_songs q 5])"
    by simp
  from h have "chat w self user_input =
     (case prompt_llm w h (format_prompt user_input recs) [] of
        (Inl e, t) \<Rightarrow>
          (Inr (''Could not format recommendations using LLM: '' @ str e), Recommend_songs q 5 # t)
      | (Inr content, t) \<Rightarrow> (Inr (clean_thinking_tags content), Recommend_songs q 5 # t))"
    using g by (intro chat_extracted_cases) simp_all
  with h show "fst (chat w self user_input) =
      Inr (''Could not format recommendations using LLM: '' @ str e)"
    by (simp split: prod.splits sum.splits)
next
  assume h: "llm self = Some h \<and> extracted_song user_input = None
        \<and> fst (prompt_llm w h general_prompt [(''input'', user_input)]) = Inl e"
  then have "chat w self user_input =
      try_except (general_conversation w h user_input)
        (\<lambda>e. return (''I encountered an error while processing your request: '' @ str e))"
    by (intro chat_general) simp_all
  then have "chat w self user_input =
     (case prompt_llm w h general_prompt [(''input'', user_input)] of
        (Inl e, t) \<Rightarrow>
          (Inr (''I encountered an error while processing your request: '' @ str e), t)
      | (Inr content, t) \<Rightarrow> (Inr (clean_thinking_tags content), t))"
    by (simp only: general_conversation_cases)
  with h show "fst (chat w self user_input) =
      Inr (''I encountered an error while processing your request: '' @ str e)"
    by (simp split: prod.splits sum.splits)
qed

lemma failing_prompt_llm:
  "prompt_llm failing_world h templates kwargs =
     (Inl (Exception ''rate limit''), [Llm_invoke templates])"
  by (simp add: prompt_llm_cases failing_world_def demo_world_def)

lemma demo_extracted_known:
  "extracted_song ''recommend 'Yesterday' please'' = Some ''Yesterday''"
proof -
  have "lower ''recommend 'Yesterday' please'' = ''recommend 'yesterday' please''"
    by code_simp
  then show ?thesis
    by (simp add: extracted_song_def is_quote_def)
qed

lemma demo_extracted_help:
  "extracted_song ''recommend 'Help' now'' = Some ''Help''"
proof -
  have "lower ''recommend 'Help' now'' = ''recommend 'help' now''"
    by code_simp
  then show ?thesis
    by (simp add: extracted_song_def is_quote_def)
qed

lemma demo_extracted_none: "extracted_song ''hello'' = None"
proof -
  have "lower ''hello'' = ''hello''"
    by code_simp
  then show ?thesis
    by (simp add: extracted_song_def)
qed

theorem chat_never_raises_witness:
  "recommend_songs demo_world ''Help'' 5 = Inl (Exception ''matrix not loaded'')
   \<and> get_recommendations demo_world ''Help'' =
       (Inr ''Error occurred while fetching recommendations: matrix not loaded'',
        [Recommend_songs ''Help'' 5])
   \<and> chat demo_world demo_agent ''recommend 'Help' now'' =
       (Inr ''Enjoy the music!'',
        [Recommend_songs ''Help'' 5,
         Llm_invoke (format_prompt ''recommend 'Help' now''
           ''Error occurred while fetching recommendations: matrix not loaded'')])
   \<and> fst (chat failing_world demo_agent ''recommend 'Yesterday' please'') =
       Inr ''Could not format recommendations using LLM: rate limit''
   \<and> extracted_song ''hello'' = None
   \<and> fst (chat failing_world demo_agent ''hello'') =
       Inr ''I encountered an error while processing your request: rate limit''"
proof -
  let ?h = "\<lparr>model = ''qwen/qwen3-32b'', groq_api_key = ''gsk-key'', temperature = 0\<rparr>"
  have b: "recommend_songs demo_world ''Help'' 5 = Inl (Exception ''matrix not loaded'')"
    by (simp add: demo_world_def)
  note m1 = chat_never_raises [where w = demo_world and self = demo_agent and h = ?h
      and user_input = "''recommend 'Help' now''" and q = "''Help''"
      and e = "Exception ''matrix not loaded''"]
  from m1 b have g: "get_recommendations demo_world ''Help'' =
       (Inr ''Error occurred while fetching recommendations: matrix not loaded'',
        [Recommend_songs ''Help'' 5])"
    by simp
  from m1 b demo_agent_llm demo_extracted_help
  have "chat demo_world demo_agent ''recommend 'Help' now'' =
      (case prompt_llm demo_world ?h (format_prompt ''recommend 'Help' now''
              (''Error occurred while fetching recommendations: '' @ str (Exception ''matrix not loaded''))) [] of
         (Inl e', t) \<Rightarrow>
           (Inr (''Could not format recommendations using LLM: '' @ str e'),
            Recommend_songs ''Help'' 5 # t)
       | (Inr content, t) \<Rightarrow> (Inr (clean_thinking_tags content), Recommend_songs ''Help'' 5 # t))"
    by blast
  then have c: "chat demo_world demo_agent ''recommend 'Help' now'' =
       (Inr ''Enjoy the music!'',
        [Recommend_songs ''Help'' 5,
         Llm_invoke (format_prompt ''recommend 'Help' now''
           ''Error occurred while fetching recommendations: matrix not loaded'')])"
    by (simp add: demo_prompt_llm demo_clean)
  have "\<exists>recs. fst (get_recommendations failing_world ''Yesterday'') = Inr recs"
    using get_recommendations_returns [of failing_world "''Yesterday''"] by auto
  then obtain recs where r: "fst (get_recommendations failing_world ''Yesterday'') = Inr recs"
    by blast
  have p: "fst (prompt_llm failing_world ?h
      (format_prompt ''recommend 'Yesterday' please'' recs) []) = Inl (Exception ''rate limit'')"
    by (simp add: failing_prompt_llm)
  note m2 = chat_never_raises [where w = failing_world and self = demo_agent and h = ?h
      and user_input = "''recommend 'Yesterday' please''" and q = "''Yesterday''"
      and e = "Exception ''rate limit''" and recs = recs]
  from m2 demo_agent_llm demo_extracted_known r p
  have "fst (chat failing_world demo_agent ''recommend 'Yesterday' please'') =
       Inr (''Could not format recommendations using LLM: '' @ str (Exception ''rate limit''))"
    by blast
  then have f: "fst (chat failing_world demo_agent ''recommend 'Yesterday' please'') =
       Inr ''Could not format recommendations using LLM: rate limit''"
    by simp
  have p': "fst (prompt_llm failing_world ?h general_prompt [(''input'', ''hello'')]) =
      Inl (Exception ''rate limit'')"
    by (simp add: failing_prompt_llm)
  note m3 = chat_never_raises [where w = failing_world and self = demo_agent and h = ?h
      and user_input = "''hello''" and e = "Exception ''rate limit''"]
  from m3 demo_agent_llm demo_extracted_none p'
  have "fst (chat failing_world demo_agent ''hello'') =
       Inr (''I encountered an error while processing your request: '' @ str (Exception ''rate limit''))"
    by blast
  then have i: "fst (chat failing_world demo_agent ''hello'') =
       Inr ''I encountered an error while processing your request: rate limit''"
    by simp
  show ?thesis
    by (intro conjI b g c f demo_extracted_none i)
qed

text \<open>
  C6 as stated fails: when the backend lookup raises and the model answers, the reply of
  \<open>chat\<close> is the cleaned completion, which starts with none of the three phrases.
\<close>

theorem chat_never_raises_counterexample:
  "recommend_songs demo_world ''Help'' 5 = Inl (Exception ''matrix not loaded'')
   \<and> snd (chat demo_world demo_agent ''recommend 'Help' now'') =
       [Recommend_songs ''Help'' 5,
        Llm_invoke (format_prompt ''recommend 'Help' now''
          ''Error occurred while fetching recommendations: matrix not loaded'')]
   \<and> fst (chat demo_world demo_agent ''recommend 'Help' now'') = Inr ''Enjoy the music!''
   \<and> \<not> prefix ''Error occurred while fetching recommendations: '' ''Enjoy the music!''
   \<and> \<not> prefix ''Could not format recommendations using LLM: '' ''Enjoy the music!''
   \<and> \<not> prefix ''I encountered an error while processing your request: '' ''Enjoy the music!''"
proof -
  have b: "recommend_songs demo_world ''Help'' 5 = Inl (Exception ''matrix not loaded'')"
    by (simp add: demo_world_def)
  then have g: "get_recommendations demo_world ''Help'' =
      (Inr ''Error occurred while fetching recommendations: matrix not loaded'',
       [Recommend_songs ''Help'' 5])"
    by (simp add: get_recommendations_cases)
  have c: "chat demo_world demo_agent ''recommend 'Help' now'' =
       (Inr ''Enjoy the music!'',
        [Recommend_songs ''Help'' 5,
         Llm_invoke (format_prompt ''recommend 'Help' now''
           ''Error occurred while fetching recommendations: matrix not loaded'')])"
    using chat_extracted_cases [OF demo_agent_llm demo_extracted_help g]
    by (simp only: demo_prompt_llm demo_clean prod.case sum.case)
  from c have f: "fst (chat demo_world demo_agent ''recommend 'Help' now'') = Inr ''Enjoy the music!''"
    and t: "snd (chat demo_world demo_agent ''recommend 'Help' now'') =
       [Recommend_songs ''Help'' 5,
        Llm_invoke (format_prompt ''recommend 'Help' now''
          ''Error occurred while fetching recommendations: matrix not loaded'')]"
    by simp_all
  have p1: "\<not> prefix ''Error occurred while fetching recommendations: '' ''Enjoy the music!''"
    and p2: "\<not> prefix ''Could not format recommendations using LLM: '' ''Enjoy the music!''"
    and p3: "\<not> prefix ''I encountered an error while processing your request: '' ''Enjoy the music!''"
    by simp_all
  show ?thesis
    by (intro conjI b t f p1 p2 p3)
qed

section \<open>The song name at an apostrophe and at a line break\<close>

lemma extracted_dont_stop:
  "extracted_song (''recommend '' @ [CHR 0x22] @ ''Don't Stop Me Now'' @ [CHR 0x22]) = Some ''Don''"
proof -
  have "lower (''recommend '' @ [CHR 0x22] @ ''Don't Stop Me Now'' @ [CHR 0x22]) =
      ''recommend '' @ [CHR 0x22] @ ''don't stop me now'' @ [CHR 0x22]"
    by code_simp
  then show ?thesis
    by (simp add: extracted_song_def is_quote_def)
qed

lemma extracted_id_like:
  "extracted_song (''I'd like '' @ [CHR 0x22] @ ''Hey Jude'' @ [CHR 0x22]) = Some ''d like ''"
proof -
  have "lower (''I'd like '' @ [CHR 0x22] @ ''Hey Jude'' @ [CHR 0x22]) =
      ''i'd like '' @ [CHR 0x22] @ ''hey jude'' @ [CHR 0x22]"
    by code_simp
  then show ?thesis
    by (simp add: extracted_song_def is_quote_def)
qed

lemma extracted_whats_similar:
  "extracted_song ''what's similar to don't stop believin?'' = Some ''s similar to don''"
proof -
  have "lower ''what's similar to don't stop believin?'' = ''what's similar to don't stop believin?''"
    by code_simp
  then show ?thesis
    by (simp add: extracted_song_def is_quote_def)
qed

text \<open>
  C3: the song name that \<open>chat\<close> looks up is not always the first quoted substring of
  the message, because the quote pattern takes an apostrophe for a quote. At
  \<open>recommend "Don't Stop Me Now"\<close> the song in quotes is \<open>Don't Stop Me Now\<close> and the
  backend is asked for \<open>Don\<close>; at \<open>I'd like "Hey Jude"\<close> the song name is \<open>d like \<close>; and
  at \<open>what's similar to don't stop believin?\<close>, which quotes nothing, it is
  \<open>s similar to don\<close>.
\<close>

theorem chat_quoted_song_apostrophe:
  "extracted_song (''recommend '' @ [CHR 0x22] @ ''Don't Stop Me Now'' @ [CHR 0x22]) = Some ''Don''
   \<and> chat demo_world demo_agent (''recommend '' @ [CHR 0x22] @ ''Don't Stop Me Now'' @ [CHR 0x22]) =
       (Inr ''Enjoy the music!'',
        [Recommend_songs ''Don'' 5,
         Llm_invoke (format_prompt (''recommend '' @ [CHR 0x22] @ ''Don't Stop Me Now'' @ [CHR 0x22])
           ''Song not found in the database. Please try another song.'')])
   \<and> extracted_song (''I'd like '' @ [CHR 0x22] @ ''Hey Jude'' @ [CHR 0x22]) = Some ''d like ''
   \<and> extracted_song ''what's similar to don't stop believin?'' = Some ''s similar to don''"
proof -
  have "recommend_songs demo_world ''Don'' 5 = Inr None"
    by (simp add: demo_world_def)
  then have g: "get_recommendations demo_world ''Don'' =
      (Inr not_found_text, [Recommend_songs ''Don'' 5])"
    by (simp add: get_recommendations_cases)
  have "chat demo_world demo_agent (''recommend '' @ [CHR 0x22] @ ''Don't Stop Me Now'' @ [CHR 0x22]) =
       (Inr ''Enjoy the music!'',
        [Recommend_songs ''Don'' 5,
         Llm_invoke (format_prompt (''recommend '' @ [CHR 0x22] @ ''Don't Stop Me Now'' @ [CHR 0x22])
           not_found_text)])"
    using chat_extracted_cases [OF demo_agent_llm extracted_dont_stop g]
    by (simp only: demo_prompt_llm demo_clean prod.case sum.case)
  then have c: "chat demo_world demo_agent (''recommend '' @ [CHR 0x22] @ ''Don't Stop Me Now'' @ [CHR 0x22]) =
       (Inr ''Enjoy the music!'',
        [Recommend_songs ''Don'' 5,
         Llm_invoke (format_prompt (''recommend '' @ [CHR 0x22] @ ''Don't Stop Me Now'' @ [CHR 0x22])
           ''Song not found in the database. Please try another song.'')])"
    by (simp only: not_found_text_def)
  show ?thesis
    by (intro conjI extracted_dont_stop c extracted_id_like extracted_whats_similar)
qed

text \<open>
  C4 as stated fails: a text behind \<open>similar to\<close> that goes over a line break and runs
  to a period is not extracted, and the message goes to the general conversation; and
  in a message that quotes nothing but has two apostrophes, the song name is the text
  between the apostrophes and not the text behind \<open>similar to\<close>.
\<close>

theorem chat_similar_to_song_counterexample:
  "findall_quoted (''recommend something similar to hey jude'' @ [NL] @ ''thanks.'') = []
   \<and> sublist ''recommend'' (lower (''recommend something similar to hey jude'' @ [NL] @ ''thanks.''))
   \<and> lower (''recommend something similar to hey jude'' @ [NL] @ ''thanks.'') =
       ''recommend something '' @ ''similar to '' @ (''hey jude'' @ [NL] @ ''thanks'') @ ''.''
   \<and> extracted_song (''recommend something similar to hey jude'' @ [NL] @ ''thanks.'') = None
   \<and> chat demo_world demo_agent (''recommend something similar to hey jude'' @ [NL] @ ''thanks.'') =
       (Inr ''Enjoy the music!'', [Llm_invoke general_prompt])
   \<and> extracted_song ''what's similar to don't stop believin?'' = Some ''s similar to don''
   \<and> ''s similar to don'' \<noteq> ''don't stop believin''"
proof -
  let ?m = "''recommend something similar to hey jude'' @ [NL] @ ''thanks.''"
  have l: "lower ?m = ''recommend something '' @ ''similar to '' @ (''hey jude'' @ [NL] @ ''thanks'') @ ''.''"
    by code_simp
  have q: "findall_quoted ?m = []"
    by (simp add: is_quote_def)
  have r: "sublist ''recommend'' (lower ?m)"
    unfolding l by simp
  have e: "extracted_song ?m = None"
    unfolding extracted_song_def l by (simp add: is_quote_def similar_to_group_def)
  have "chat demo_world demo_agent ?m =
      try_except (general_conversation demo_world
          \<lparr>model = ''qwen/qwen3-32b'', groq_api_key = ''gsk-key'', temperature = 0\<rparr> ?m)
        (\<lambda>e. return (''I encountered an error while processing your request: '' @ str e))"
    using demo_agent_llm e by (rule chat_general)
  then have c: "chat demo_world demo_agent ?m = (Inr ''Enjoy the music!'', [Llm_invoke general_prompt])"
    by (simp only: general_conversation_cases demo_prompt_llm demo_clean prod.case sum.case)
  have a: "extracted_song ''what's similar to don't stop believin?'' = Some ''s similar to don''"
    by (rule extracted_whats_similar)
  have d: "''s similar to don'' \<noteq> ''don't stop believin''"
    by simp
  show ?thesis
    by (intro conjI q r l e c a d)
qed

end
